theory Spec2Isabelle
  imports Main "HOL-Library.Word"
begin

unbundle bit_operations_syntax

section \<open>Machine integers and the macros of util.h\<close>

type_synonym u32 = "32 word"
type_synonym u64 = "64 word"

text \<open>
  Modelled from the spec: util.h is not among the sources. \<open>align(x, a)\<close> rounds \<open>x\<close> up
  to the next multiple of the power of two \<open>a\<close>; in the unsigned arithmetic of the C
  operands this is the mask expression \<open>((A) + (B) - 1) & ~((B) - 1)\<close>, which wraps
  around with the word size.
\<close>

definition ALIGN :: "'a::len word \<Rightarrow> 'a word \<Rightarrow> 'a word" where
  "ALIGN A B = (A + (B - 1)) AND NOT (B - 1)"

text \<open>Modelled from the spec: \<open>IS_ALIGNED\<close> of util.h, "is a multiple of".\<close>

definition IS_ALIGNED :: "'a::len word \<Rightarrow> 'a word \<Rightarrow> bool" where
  "IS_ALIGNED A B \<longleftrightarrow> ALIGN A B = A"

text \<open>Modelled from the spec: \<open>DIV_ROUND_UP\<close> of util.h, the rounded-up quotient
  \<open>((n) + (d) - 1) / (d)\<close> in unsigned arithmetic.\<close>

definition DIV_ROUND_UP :: "'a::len word \<Rightarrow> 'a word \<Rightarrow> 'a word" where
  "DIV_ROUND_UP n d = (n + (d - 1)) div d"

section \<open>Constants of the kernel interface\<close>

text \<open>Format modifiers (drm_fourcc.h): vendor Intel is 1 in the top byte.\<close>

definition DRM_FORMAT_MOD_LINEAR :: u64 where
  "DRM_FORMAT_MOD_LINEAR = 0"

definition I915_FORMAT_MOD_X_TILED :: u64 where
  "I915_FORMAT_MOD_X_TILED = 0x0100000000000001"

definition I915_FORMAT_MOD_Y_TILED :: u64 where
  "I915_FORMAT_MOD_Y_TILED = 0x0100000000000002"

definition I915_FORMAT_MOD_Yf_TILED :: u64 where
  "I915_FORMAT_MOD_Yf_TILED = 0x0100000000000003"

definition I915_FORMAT_MOD_Y_TILED_CCS :: u64 where
  "I915_FORMAT_MOD_Y_TILED_CCS = 0x0100000000000004"

definition I915_FORMAT_MOD_Yf_TILED_CCS :: u64 where
  "I915_FORMAT_MOD_Yf_TILED_CCS = 0x0100000000000005"

definition I915_FORMAT_MOD_Y_TILED_GEN12_RC_CCS :: u64 where
  "I915_FORMAT_MOD_Y_TILED_GEN12_RC_CCS = 0x0100000000000006"

definition I915_FORMAT_MOD_4_TILED :: u64 where
  "I915_FORMAT_MOD_4_TILED = 0x0100000000000009"

definition I915_FORMAT_MOD_4_TILED_MTL_RC_CCS :: u64 where
  "I915_FORMAT_MOD_4_TILED_MTL_RC_CCS = 0x010000000000000D"

text \<open>Pixel formats: the four-character codes of drm_fourcc.h, and drv.h's code
  \<open>9997\<close> for the Android flavour of YVU420.\<close>

definition DRM_FORMAT_R8 :: u32 where
  "DRM_FORMAT_R8 = 0x20203852"

definition DRM_FORMAT_NV12 :: u32 where
  "DRM_FORMAT_NV12 = 0x3231564E"

definition DRM_FORMAT_P010 :: u32 where
  "DRM_FORMAT_P010 = 0x30313050"

definition DRM_FORMAT_P016 :: u32 where
  "DRM_FORMAT_P016 = 0x36313050"

definition DRM_FORMAT_ARGB8888 :: u32 where
  "DRM_FORMAT_ARGB8888 = 0x34325241"

definition DRM_FORMAT_XRGB8888 :: u32 where
  "DRM_FORMAT_XRGB8888 = 0x34325258"

definition DRM_FORMAT_YVU420_ANDROID :: u32 where
  "DRM_FORMAT_YVU420_ANDROID = 0x37393939"

text \<open>
  The tiling modes \<open>I915_TILING_*\<close>. The field is a \<open>uint32_t\<close>; every value other than
  the four named ones is \<open>I915_TILING_OTHER\<close>, the \<open>default\<close> of the switches.
\<close>

datatype i915_tiling =
  I915_TILING_NONE | I915_TILING_X | I915_TILING_Y | I915_TILING_4 | I915_TILING_OTHER u32

section \<open>The device and the host driver\<close>

text \<open>\<open>struct i915_device\<close>; \<open>modifier_order\<close> is \<open>modifier.order\<close> with its count, a list;
  a memory region is its pair of class and instance.\<close>

record i915_device =
  graphics_version :: u32
  sub_version :: u32
  modifier_order :: "u64 list"
  vram_region :: "16 word \<times> 16 word"
  vram_size :: u64
  sys_region :: "16 word \<times> 16 word"
  has_llc :: bool
  has_hw_protection :: bool
  is_xelpd :: bool
  has_mmap_offset :: bool
  has_local_mem :: bool
  force_mem_local :: bool

text \<open>One entry of the combination registry, as far as the planner reads it.\<close>

record combination =
  combo_modifier :: u64
  combo_tiling :: i915_tiling
  combo_priority :: nat

text \<open>What a layout helper writes: strides, sizes, offsets per plane and the total.\<close>

record plane_layout =
  layout_strides :: "nat \<Rightarrow> u32"
  layout_sizes :: "nat \<Rightarrow> u32"
  layout_offsets :: "nat \<Rightarrow> u32"
  layout_total_size :: u64

text \<open>
  \<open>struct bo\<close>: the metadata \<open>bo->meta\<close> and the handles. The per-plane arrays are maps
  from the plane index. The header that declares the structure is not among the
  sources; the widths are those of the variables i915.c moves in and out of the fields:
  32 bits for strides, sizes and offsets, 64 bits for the modifier, the use flags and
  the total size.
\<close>

record bo =
  meta_format :: u32
  meta_tiling :: i915_tiling
  meta_num_planes :: nat
  meta_offsets :: "nat \<Rightarrow> u32"
  meta_sizes :: "nat \<Rightarrow> u32"
  meta_strides :: "nat \<Rightarrow> u32"
  meta_format_modifier :: u64
  meta_use_flags :: u64
  meta_total_size :: u64
  handles :: "nat \<Rightarrow> u32"

text \<open>
  \<open>struct driver\<close> together with everything i915.c takes from files that are not among
  the sources; each is a parameter of the model.
  \<^item> \<open>priv\<close>, \<open>compression\<close>: fields of \<open>struct driver\<close>.
  \<^item> \<open>pagesize\<close>: the value of \<open>getpagesize()\<close>.
  \<^item> \<open>LINEAR_ALIGN_256\<close>: whether the compile-time flag is defined.
  \<^item> \<open>drv_num_planes_from_format\<close>, \<open>drv_stride_from_format\<close>, \<open>drv_height_from_format\<close>:
    the format oracle of drv_helpers.c.
  \<^item> \<open>drv_get_combination\<close>: the registry lookup of drv.c, \<open>None\<close> for \<open>NULL\<close>.
  \<^item> \<open>drv_pick_modifier\<close>: the helper of drv_helpers.c, called with the client list,
    its count and the generation order.
  \<^item> \<open>drv_bo_from_format\<close>: the generic layout helper of drv_helpers.c, called with the
    buffer, stride, stride alignment, height and format; it yields its return code and
    the layout it writes.
  \<^item> \<open>BO_USE_*\<close>: the usage bits of drv.h.
\<close>

record driver =
  priv :: i915_device
  compression :: bool
  pagesize :: u32
  LINEAR_ALIGN_256 :: bool
  drv_num_planes_from_format :: "u32 \<Rightarrow> nat"
  drv_stride_from_format :: "u32 \<Rightarrow> u32 \<Rightarrow> nat \<Rightarrow> u32"
  drv_height_from_format :: "u32 \<Rightarrow> u32 \<Rightarrow> nat \<Rightarrow> u32"
  drv_get_combination :: "u32 \<Rightarrow> u64 \<Rightarrow> combination option"
  drv_pick_modifier :: "u64 list \<Rightarrow> nat \<Rightarrow> u64 list \<Rightarrow> u64"
  drv_bo_from_format :: "bo \<Rightarrow> u32 \<Rightarrow> u32 \<Rightarrow> u32 \<Rightarrow> u32 \<Rightarrow> int \<times> plane_layout"
  BO_USE_SCANOUT :: u64
  BO_USE_RENDERSCRIPT :: u64
  BO_USE_CAMERA_READ :: u64
  BO_USE_CAMERA_WRITE :: u64
  BO_USE_SW_READ_OFTEN :: u64
  BO_USE_SW_READ_RARELY :: u64
  BO_USE_SW_WRITE_OFTEN :: u64
  BO_USE_SW_WRITE_RARELY :: u64

text \<open>How an operation can end other than by returning its result.\<close>

datatype error =
  EINVAL | ASSERT_FAILED | UNDEFINED_SHIFT | RETURNED int

section \<open>Generation and modifier order\<close>

definition GEN_VERSION_X10 :: "i915_device \<Rightarrow> u32" where
  "GEN_VERSION_X10 dev = graphics_version dev * 10 + sub_version dev"

definition i915_has_tile4 :: "i915_device \<Rightarrow> bool" where
  "i915_has_tile4 i915 \<longleftrightarrow> GEN_VERSION_X10 i915 \<ge> 125"

definition gen_modifier_order :: "u64 list" where
  "gen_modifier_order =
     [I915_FORMAT_MOD_Y_TILED_CCS, I915_FORMAT_MOD_Y_TILED,
      I915_FORMAT_MOD_X_TILED, DRM_FORMAT_MOD_LINEAR]"

definition gen12_modifier_order :: "u64 list" where
  "gen12_modifier_order =
     [I915_FORMAT_MOD_Y_TILED_GEN12_RC_CCS, I915_FORMAT_MOD_Y_TILED,
      I915_FORMAT_MOD_X_TILED, DRM_FORMAT_MOD_LINEAR]"

definition gen11_modifier_order :: "u64 list" where
  "gen11_modifier_order =
     [I915_FORMAT_MOD_Y_TILED, I915_FORMAT_MOD_X_TILED, DRM_FORMAT_MOD_LINEAR]"

definition xe_lpdp_modifier_order :: "u64 list" where
  "xe_lpdp_modifier_order =
     [I915_FORMAT_MOD_4_TILED_MTL_RC_CCS, I915_FORMAT_MOD_4_TILED,
      I915_FORMAT_MOD_X_TILED, DRM_FORMAT_MOD_LINEAR]"

definition i915_get_modifier_order :: "i915_device \<Rightarrow> i915_device" where
  "i915_get_modifier_order i915 =
     (if i915_has_tile4 i915 then i915\<lparr>modifier_order := xe_lpdp_modifier_order\<rparr>
      else if graphics_version i915 = 12 then i915\<lparr>modifier_order := gen12_modifier_order\<rparr>
      else if graphics_version i915 = 11 then i915\<lparr>modifier_order := gen11_modifier_order\<rparr>
      else i915\<lparr>modifier_order := gen_modifier_order\<rparr>)"

section \<open>Dimension alignment\<close>

text \<open>
  \<open>i915_align_dimensions\<close>: the return code (always 0), the stride and the aligned
  height. The values for \<open>gen_x10 \<ge> 125\<close> are assigned before the switch on the tiling;
  the stride is left alone when \<open>bo->meta.format\<close> is R8.
\<close>

definition i915_align_dimensions ::
  "driver \<Rightarrow> bo \<Rightarrow> u32 \<Rightarrow> i915_tiling \<Rightarrow> u32 \<Rightarrow> u32 \<Rightarrow> int \<times> u32 \<times> u32" where
  "i915_align_dimensions drv b format tiling stride aligned_height =
     (let i915 = priv drv;
          (horizontal_alignment0, vertical_alignment0) =
            (if GEN_VERSION_X10 i915 \<ge> 125 then (4, 4) else (64, 4));
          (horizontal_alignment, vertical_alignment) =
            (case tiling of
               I915_TILING_NONE \<Rightarrow>
                 (if LINEAR_ALIGN_256 drv then 256 else 64,
                  if format = DRM_FORMAT_R8 \<and> aligned_height = 1 then 1 else 4)
             | I915_TILING_X \<Rightarrow> (512, 8)
             | I915_TILING_Y \<Rightarrow> (128, 32)
             | I915_TILING_4 \<Rightarrow> (128, 32)
             | I915_TILING_OTHER _ \<Rightarrow> (horizontal_alignment0, vertical_alignment0));
          aligned_height' = ALIGN aligned_height vertical_alignment;
          stride' = (if DRM_FORMAT_R8 \<noteq> meta_format b
                     then ALIGN stride horizontal_alignment else stride)
      in (0, stride', aligned_height'))"

section \<open>Plane count of a modifier\<close>

text \<open>\<open>i915_num_planes_from_modifier\<close>, with its assertion as an outcome.\<close>

definition i915_num_planes_from_modifier :: "driver \<Rightarrow> u32 \<Rightarrow> u64 \<Rightarrow> error + nat" where
  "i915_num_planes_from_modifier drv format modifier =
     (let num_planes = drv_num_planes_from_format drv format
      in if modifier = I915_FORMAT_MOD_Y_TILED_CCS \<or>
            modifier = I915_FORMAT_MOD_Y_TILED_GEN12_RC_CCS \<or>
            modifier = I915_FORMAT_MOD_4_TILED_MTL_RC_CCS
         then (if num_planes = 1 then Inr 2 else Inl ASSERT_FAILED)
         else Inr num_planes)"

section \<open>The metadata planner\<close>

text \<open>
  The search loop of \<open>i915_bo_compute_metadata\<close>,
  \<open>for (i = 0; modifiers && i < count; i++) if (modifiers[i] == wanted) break;\<close>,
  as the value of \<open>i\<close> after it. \<open>None\<close> is the \<open>NULL\<close> pointer, for which the loop does
  not run. The array behind a pointer holds at least \<open>count\<close> entries (it is read at
  every index below \<open>count\<close>).
\<close>

function modifier_scan_from :: "u64 list \<Rightarrow> nat \<Rightarrow> u64 \<Rightarrow> nat \<Rightarrow> nat" where
  "modifier_scan_from ms count wanted i =
     (if i < count
      then (if ms ! i = wanted then i else modifier_scan_from ms count wanted (Suc i))
      else i)"
  by pat_completeness auto
termination
  by (relation "measure (\<lambda>(ms, count, wanted, i). count - i)") auto

declare modifier_scan_from.simps [simp del]

definition modifier_scan :: "u64 list option \<Rightarrow> nat \<Rightarrow> u64 \<Rightarrow> nat" where
  "modifier_scan modifiers count wanted =
     (case modifiers of None \<Rightarrow> 0 | Some ms \<Rightarrow> modifier_scan_from ms count wanted 0)"

text \<open>
  The two ways the argument pair is passed: no list, \<open>NULL\<close> with the count 0, or an
  array with its length. \<open>client_has\<close> tells whether the client list holds a modifier.
\<close>

definition modifiers_ok :: "u64 list option \<Rightarrow> nat \<Rightarrow> bool" where
  "modifiers_ok modifiers count \<longleftrightarrow>
     (case modifiers of None \<Rightarrow> count = 0 | Some ms \<Rightarrow> count = length ms)"

definition client_has :: "u64 list option \<Rightarrow> u64 \<Rightarrow> bool" where
  "client_has modifiers m \<longleftrightarrow>
     (case modifiers of None \<Rightarrow> False | Some ms \<Rightarrow> m \<in> set ms)"

text \<open>Lines 748 to 756: the modifier of the client list or of the registry.\<close>

definition compute_metadata_select ::
  "driver \<Rightarrow> u32 \<Rightarrow> u64 \<Rightarrow> u64 list option \<Rightarrow> nat \<Rightarrow> error + u64" where
  "compute_metadata_select drv format use_flags modifiers count =
     (case modifiers of
        Some ms \<Rightarrow> Inr (drv_pick_modifier drv ms count (modifier_order (priv drv)))
      | None \<Rightarrow>
          (case drv_get_combination drv format use_flags of
             None \<Rightarrow> Inl EINVAL
           | Some combo \<Rightarrow> Inr (combo_modifier combo)))"

text \<open>Lines 746 and 762 to 773: surfaces wider than 4096 before generation 11.\<close>

definition compute_metadata_huge_bo ::
  "driver \<Rightarrow> u32 \<Rightarrow> u32 \<Rightarrow> u64 list option \<Rightarrow> nat \<Rightarrow> u64 \<Rightarrow> u64" where
  "compute_metadata_huge_bo drv width format modifiers count modifier =
     (let huge_bo = (graphics_version (priv drv) < 11 \<and> width > 4096)
      in if huge_bo \<and> format \<noteq> DRM_FORMAT_NV12 \<and> format \<noteq> DRM_FORMAT_P010 \<and>
            modifier \<noteq> I915_FORMAT_MOD_X_TILED \<and> modifier \<noteq> DRM_FORMAT_MOD_LINEAR
         then (if modifier_scan modifiers count I915_FORMAT_MOD_X_TILED = count
               then DRM_FORMAT_MOD_LINEAR else I915_FORMAT_MOD_X_TILED)
         else modifier)"

text \<open>Lines 779 to 789: compression disabled.\<close>

definition compute_metadata_compression ::
  "driver \<Rightarrow> u64 list option \<Rightarrow> nat \<Rightarrow> u64 \<Rightarrow> u64" where
  "compute_metadata_compression drv modifiers count modifier =
     (if \<not> compression drv \<and> modifier = I915_FORMAT_MOD_Y_TILED_CCS
      then (if modifier_scan modifiers count I915_FORMAT_MOD_Y_TILED = count
            then DRM_FORMAT_MOD_LINEAR else I915_FORMAT_MOD_Y_TILED)
      else modifier)"

text \<open>Lines 792 to 794: generation 8 and earlier.\<close>

definition compute_metadata_gen8 :: "driver \<Rightarrow> u32 \<Rightarrow> u64 \<Rightarrow> u64" where
  "compute_metadata_gen8 drv format modifier =
     (if graphics_version (priv drv) \<le> 8 \<and> format = DRM_FORMAT_ARGB8888
      then DRM_FORMAT_MOD_LINEAR else modifier)"

text \<open>The modifier the planner stores: selection, then the three overrides in order.\<close>

definition compute_metadata_modifier ::
  "driver \<Rightarrow> u32 \<Rightarrow> u32 \<Rightarrow> u64 \<Rightarrow> u64 list option \<Rightarrow> nat \<Rightarrow> error + u64" where
  "compute_metadata_modifier drv width format use_flags modifiers count =
     (case compute_metadata_select drv format use_flags modifiers count of
        Inl e \<Rightarrow> Inl e
      | Inr modifier \<Rightarrow>
          Inr (compute_metadata_gen8 drv format
                 (compute_metadata_compression drv modifiers count
                    (compute_metadata_huge_bo drv width format modifiers count modifier))))"

text \<open>Lines 796 to 818: the switch on the modifier; without a matching case the
  tiling of the buffer stays what it was.\<close>

definition compute_metadata_tiling :: "i915_tiling \<Rightarrow> u64 \<Rightarrow> i915_tiling" where
  "compute_metadata_tiling old modifier =
     (if modifier = DRM_FORMAT_MOD_LINEAR then I915_TILING_NONE
      else if modifier = I915_FORMAT_MOD_X_TILED then I915_TILING_X
      else if modifier = I915_FORMAT_MOD_Y_TILED \<or> modifier = I915_FORMAT_MOD_Y_TILED_CCS \<or>
              modifier = I915_FORMAT_MOD_Yf_TILED \<or> modifier = I915_FORMAT_MOD_Yf_TILED_CCS \<or>
              modifier = I915_FORMAT_MOD_Y_TILED_GEN12_RC_CCS then I915_TILING_Y
      else if modifier = I915_FORMAT_MOD_4_TILED \<or>
              modifier = I915_FORMAT_MOD_4_TILED_MTL_RC_CCS then I915_TILING_4
      else old)"

definition i915_format_needs_LCU_alignment :: "u32 \<Rightarrow> nat \<Rightarrow> i915_device \<Rightarrow> bool" where
  "i915_format_needs_LCU_alignment format plane i915 =
     (if format = DRM_FORMAT_NV12 \<or> format = DRM_FORMAT_P010 \<or> format = DRM_FORMAT_P016
      then (graphics_version i915 = 11 \<or> graphics_version i915 = 12) \<and> plane = 1
      else False)"

text \<open>
  What one turn of the loop of \<open>i915_bo_from_format\<close> computes for a plane: the stride
  and the height after \<open>i915_align_dimensions\<close> and the alignment to the largest coded
  unit, and their product, the size.
\<close>

definition plane_stride :: "driver \<Rightarrow> bo \<Rightarrow> u32 \<Rightarrow> u32 \<Rightarrow> u32 \<Rightarrow> nat \<Rightarrow> u32" where
  "plane_stride drv b width height format plane =
     fst (snd (i915_align_dimensions drv b format (meta_tiling b)
                 (drv_stride_from_format drv format width plane)
                 (drv_height_from_format drv format height plane)))"

definition plane_height :: "driver \<Rightarrow> bo \<Rightarrow> u32 \<Rightarrow> u32 \<Rightarrow> u32 \<Rightarrow> nat \<Rightarrow> u32" where
  "plane_height drv b width height format plane =
     (let h = snd (snd (i915_align_dimensions drv b format (meta_tiling b)
                          (drv_stride_from_format drv format width plane)
                          (drv_height_from_format drv format height plane)))
      in if i915_format_needs_LCU_alignment format plane (priv drv)
         then ALIGN h 64 else h)"

definition plane_size :: "driver \<Rightarrow> bo \<Rightarrow> u32 \<Rightarrow> u32 \<Rightarrow> u32 \<Rightarrow> nat \<Rightarrow> u32" where
  "plane_size drv b width height format plane =
     plane_stride drv b width height format plane *
     plane_height drv b width height format plane"

text \<open>
  The loop of \<open>i915_bo_from_format\<close> from plane \<open>plane\<close> and offset \<open>offset\<close> on; it
  yields the final offset and the buffer. The assertion on the offset is an outcome.
\<close>

function i915_bo_from_format_loop ::
  "driver \<Rightarrow> u32 \<Rightarrow> u32 \<Rightarrow> u32 \<Rightarrow> nat \<Rightarrow> u32 \<Rightarrow> bo \<Rightarrow> error + (u32 \<times> bo)" where
  "i915_bo_from_format_loop drv width height format plane offset b =
     (if plane < drv_num_planes_from_format drv format then
        (let stride = drv_stride_from_format drv format width plane;
             plane_height = drv_height_from_format drv format height plane
         in if meta_tiling b \<noteq> I915_TILING_NONE \<and> \<not> IS_ALIGNED offset (pagesize drv)
            then Inl ASSERT_FAILED
            else
              (case i915_align_dimensions drv b format (meta_tiling b) stride plane_height of
                 (ret, stride', plane_height') \<Rightarrow>
                   if ret \<noteq> 0 then Inl (RETURNED ret)
                   else
                     (let plane_height'' =
                            (if i915_format_needs_LCU_alignment format plane (priv drv)
                             then ALIGN plane_height' 64 else plane_height');
                          size = stride' * plane_height'';
                          b' = b\<lparr>meta_strides := (meta_strides b)(plane := stride'),
                                 meta_sizes := (meta_sizes b)(plane := size),
                                 meta_offsets := (meta_offsets b)(plane := offset)\<rparr>
                      in i915_bo_from_format_loop drv width height format (Suc plane)
                           (offset + size) b')))
      else Inr (offset, b))"
  by pat_completeness auto
termination
  by (relation "measure (\<lambda>(drv, width, height, format, plane, offset, b).
         drv_num_planes_from_format drv format - plane)") auto

declare i915_bo_from_format_loop.simps [simp del]

definition i915_bo_from_format :: "driver \<Rightarrow> bo \<Rightarrow> u32 \<Rightarrow> u32 \<Rightarrow> u32 \<Rightarrow> error + bo" where
  "i915_bo_from_format drv b width height format =
     (case i915_bo_from_format_loop drv width height format 0 0 b of
        Inl e \<Rightarrow> Inl e
      | Inr (offset, b') \<Rightarrow>
          Inr (b'\<lparr>meta_total_size := ucast (ALIGN offset (pagesize drv))\<rparr>))"

text \<open>The number of leading zero bits of a 32-bit value, \<open>__builtin_clz\<close>.\<close>

fun bit_length :: "nat \<Rightarrow> nat" where
  "bit_length n = (if n = 0 then 0 else Suc (bit_length (n div 2)))"

definition builtin_clz :: "u32 \<Rightarrow> nat" where
  "builtin_clz x = 32 - bit_length (unat x)"

text \<open>
  Lines 879 to 945: the main and the auxiliary plane of the two render-compressed
  layouts, from the stride and height of the main plane.
\<close>

definition rc_ccs_planes :: "driver \<Rightarrow> bo \<Rightarrow> u32 \<Rightarrow> u32 \<Rightarrow> nat \<Rightarrow> bo" where
  "rc_ccs_planes drv b stride height n =
     (let size0 = ALIGN (stride * height) 65536;
          size1 = ALIGN (size0 div 256) (pagesize drv)
      in b\<lparr>meta_strides := (meta_strides b)(0 := stride, 1 := stride div 8),
           meta_sizes := (meta_sizes b)(0 := size0, 1 := size1),
           meta_offsets := (meta_offsets b)(0 := 0, 1 := size0),
           meta_num_planes := n,
           meta_total_size := ucast (size0 + size1)\<rparr>)"

text \<open>
  Lines 827 to 949: the layout, by format and modifier. In the Xe-LPD branch the
  constant \<open>1\<close> is an \<open>int\<close>: shifting it by 31 or more is not defined.
\<close>

definition compute_metadata_layout ::
  "driver \<Rightarrow> bo \<Rightarrow> u32 \<Rightarrow> u32 \<Rightarrow> u32 \<Rightarrow> u64 \<Rightarrow> error + bo" where
  "compute_metadata_layout drv b width height format modifier =
     (if format = DRM_FORMAT_YVU420_ANDROID then
        (let stride = ALIGN width 32
         in case drv_bo_from_format drv b stride 1 height format of
              (ret, l) \<Rightarrow>
                if ret \<noteq> 0 then Inl (RETURNED ret)
                else Inr (b\<lparr>meta_strides := layout_strides l,
                            meta_sizes := layout_sizes l,
                            meta_offsets := layout_offsets l,
                            meta_total_size := layout_total_size l\<rparr>))
      else if modifier = I915_FORMAT_MOD_Y_TILED_CCS then
        (let stride = drv_stride_from_format drv format width 0;
             width_in_tiles = DIV_ROUND_UP stride 128;
             height_in_tiles = DIV_ROUND_UP height 32;
             size = width_in_tiles * height_in_tiles * 4096;
             ccs_width_in_tiles = DIV_ROUND_UP width_in_tiles 32;
             ccs_height_in_tiles = DIV_ROUND_UP height_in_tiles 16;
             ccs_size = ccs_width_in_tiles * ccs_height_in_tiles * 4096
         in case i915_num_planes_from_modifier drv format modifier of
              Inl e \<Rightarrow> Inl e
            | Inr n \<Rightarrow>
                Inr (b\<lparr>meta_strides := (meta_strides b)
                          (0 := width_in_tiles * 128, 1 := ccs_width_in_tiles * 128),
                       meta_sizes := (meta_sizes b)(0 := size, 1 := ccs_size),
                       meta_offsets := (meta_offsets b)(0 := 0, 1 := size),
                       meta_num_planes := n,
                       meta_total_size := ucast (size + ccs_size)\<rparr>))
      else if modifier = I915_FORMAT_MOD_Y_TILED_GEN12_RC_CCS then
        (let stride = ALIGN (drv_stride_from_format drv format width 0) 512;
             height1 = ALIGN (drv_height_from_format drv format height 0) 32;
             shift = 32 - builtin_clz (stride - 1);
             xelpd = (is_xelpd (priv drv) \<and> stride > 1)
         in if xelpd \<and> 31 \<le> shift then Inl UNDEFINED_SHIFT
            else
              (let stride' = (if xelpd then push_bit shift 1 else stride);
                   height2 = (if xelpd
                              then ALIGN (drv_height_from_format drv format height1 0) 128
                              else height1)
               in case i915_num_planes_from_modifier drv format modifier of
                    Inl e \<Rightarrow> Inl e
                  | Inr n \<Rightarrow> Inr (rc_ccs_planes drv b stride' height2 n)))
      else if modifier = I915_FORMAT_MOD_4_TILED_MTL_RC_CCS then
        (let stride = ALIGN (ALIGN (drv_stride_from_format drv format width 0) 512) 256;
             height1 = ALIGN (drv_height_from_format drv format height 0) 32
         in Inr (rc_ccs_planes drv b stride height1 2))
      else i915_bo_from_format drv b width height format)"

text \<open>
  \<open>i915_bo_compute_metadata\<close>: \<open>Inr\<close> is the return value 0 with the buffer as planned.
\<close>

definition i915_bo_compute_metadata ::
  "driver \<Rightarrow> bo \<Rightarrow> u32 \<Rightarrow> u32 \<Rightarrow> u32 \<Rightarrow> u64 \<Rightarrow> u64 list option \<Rightarrow> nat \<Rightarrow> error + bo" where
  "i915_bo_compute_metadata drv b width height format use_flags modifiers count =
     (case compute_metadata_modifier drv width format use_flags modifiers count of
        Inl e \<Rightarrow> Inl e
      | Inr modifier \<Rightarrow>
          compute_metadata_layout drv
            (b\<lparr>meta_tiling := compute_metadata_tiling (meta_tiling b) modifier,
               meta_format_modifier := modifier\<rparr>)
            width height format modifier)"

section \<open>The kernel\<close>

text \<open>
  A transaction with the kernel: the ioctls i915.c issues, by request, with the
  arguments it fills in, and the \<open>mmap\<close> call on the device node. A memory region is
  its pair of class and instance.
\<close>

type_synonym memregion = "16 word \<times> 16 word"

datatype mmap_offset_flag =
  I915_MMAP_OFFSET_FIXED | I915_MMAP_OFFSET_WC | I915_MMAP_OFFSET_WB

datatype mmap_prot = PROT_READ_WRITE | DRV_GET_PROT u32

datatype kcall =
    GEM_CREATE u64
  | GEM_CREATE_EXT u64 "memregion list" bool
  | PRELIM_GEM_CREATE_EXT u64 "memregion list"
  | GEM_SET_TILING u32 i915_tiling u32
  | GEM_CLOSE u32
  | GEM_MMAP_OFFSET u32 mmap_offset_flag
  | GEM_MMAP u32 u64 u64 bool
  | GEM_MMAP_GTT u32
  | MMAP u64 mmap_prot u64

text \<open>
  The answer to a transaction: the return value, \<open>errno\<close> after a failure, and the value
  written back (a handle, a fake offset or an address).
\<close>

record kresult =
  kret :: int
  kerrno :: int
  kvalue :: u64

type_synonym kernel = "kcall \<Rightarrow> kresult"

text \<open>The three requests that create a buffer object.\<close>

fun is_create :: "kcall \<Rightarrow> bool" where
  "is_create (GEM_CREATE _) = True"
| "is_create (GEM_CREATE_EXT _ _ _) = True"
| "is_create (PRELIM_GEM_CREATE_EXT _ _) = True"
| "is_create _ = False"

section \<open>The allocator\<close>

datatype iris_heap =
  IRIS_HEAP_SYSTEM_MEMORY | IRIS_HEAP_DEVICE_LOCAL | IRIS_HEAP_DEVICE_LOCAL_PREFERRED
  | IRIS_HEAP_MAX

definition flags_to_heap :: "i915_device \<Rightarrow> u64 \<Rightarrow> iris_heap" where
  "flags_to_heap i915 flags =
     (if vram_size i915 > 0 then IRIS_HEAP_DEVICE_LOCAL_PREFERRED
      else IRIS_HEAP_SYSTEM_MEMORY)"

definition is_need_local :: "driver \<Rightarrow> u64 \<Rightarrow> bool" where
  "is_need_local drv use_flags =
     (if use_flags AND BO_USE_SW_READ_RARELY drv \<noteq> 0 \<or>
         use_flags AND BO_USE_SW_READ_OFTEN drv \<noteq> 0 \<or>
         use_flags AND BO_USE_SW_WRITE_RARELY drv \<noteq> 0 \<or>
         use_flags AND BO_USE_SW_WRITE_OFTEN drv \<noteq> 0
      then False else True)"

text \<open>Lines 984 to 1088: the creation request; \<open>prelim\<close> is \<open>is_prelim_kernel\<close>.\<close>

definition create_request :: "driver \<Rightarrow> bool \<Rightarrow> bo \<Rightarrow> kcall" where
  "create_request drv prelim b =
     (let i915 = priv drv;
          local = is_need_local drv (meta_use_flags b)
      in if local \<and> has_local_mem i915 then
           (if \<not> prelim then
              (let heap = flags_to_heap i915 (meta_use_flags b);
                   regions =
                     (case heap of
                        IRIS_HEAP_DEVICE_LOCAL_PREFERRED \<Rightarrow> [vram_region i915, sys_region i915]
                      | IRIS_HEAP_DEVICE_LOCAL \<Rightarrow> [vram_region i915]
                      | IRIS_HEAP_SYSTEM_MEMORY \<Rightarrow> [sys_region i915]
                      | IRIS_HEAP_MAX \<Rightarrow> [])
               in GEM_CREATE_EXT (ALIGN (meta_total_size b) 0x10000) regions
                    (heap = IRIS_HEAP_DEVICE_LOCAL_PREFERRED))
            else
              PRELIM_GEM_CREATE_EXT (ALIGN (meta_total_size b) 0x10000)
                (if force_mem_local i915 then [vram_region i915, sys_region i915]
                 else [sys_region i915]))
         else GEM_CREATE (meta_total_size b))"

text \<open>
  \<open>i915_bo_create_from_metadata\<close>: the return value, the buffer, and the transactions
  issued, in order.
\<close>

definition i915_bo_create_from_metadata ::
  "driver \<Rightarrow> kernel \<Rightarrow> bool \<Rightarrow> bo \<Rightarrow> (int \<times> bo) \<times> kcall list" where
  "i915_bo_create_from_metadata drv k prelim b =
     (let i915 = priv drv;
          create = create_request drv prelim b;
          r = k create
      in if kret r \<noteq> 0 then ((- kerrno r, b), [create])
         else
           (let gem_handle = (ucast (kvalue r) :: u32);
                b1 = b\<lparr>handles := (\<lambda>plane. if plane < meta_num_planes b then gem_handle
                                             else handles b plane)\<rparr>
            in if GEN_VERSION_X10 i915 \<noteq> 125 \<and> graphics_version i915 \<noteq> 14 then
                 (let set_tiling = GEM_SET_TILING (handles b1 0) (meta_tiling b1)
                                     (meta_strides b1 0);
                      r2 = k set_tiling
                  in if kret r2 \<noteq> 0 then
                       (let gem_close = GEM_CLOSE (handles b1 0);
                            r3 = k gem_close
                        in ((- (if kret r3 \<noteq> 0 then kerrno r3 else kerrno r2), b1),
                            [create, set_tiling, gem_close]))
                     else ((0, b1), [create, set_tiling]))
               else ((0, b1), [create])))"

section \<open>The mapping engine\<close>

definition MAP_FAILED :: u64 where
  "MAP_FAILED = - 1"

text \<open>The condition under which a mapping is write-combined.\<close>

definition map_wants_wc :: "driver \<Rightarrow> bo \<Rightarrow> bool" where
  "map_wants_wc drv b \<longleftrightarrow>
     meta_use_flags b AND BO_USE_SCANOUT drv \<noteq> 0 \<and>
     \<not> (meta_use_flags b AND
          (BO_USE_RENDERSCRIPT drv OR BO_USE_CAMERA_READ drv OR BO_USE_CAMERA_WRITE drv OR
           BO_USE_SW_READ_OFTEN drv) \<noteq> 0)"

text \<open>The end of \<open>i915_bo_map\<close>, lines 1265 to 1271, on the address and \<open>vma->length\<close>.\<close>

definition map_finish :: "bo \<Rightarrow> u64 \<Rightarrow> u64 \<Rightarrow> u64 \<times> u64" where
  "map_finish b addr vma_length =
     (if addr = MAP_FAILED then (addr, vma_length) else (addr, meta_total_size b))"

text \<open>
  \<open>i915_bo_map\<close>: the address returned, \<open>vma->length\<close> afterwards, and the transactions
  issued, in order.
\<close>

definition i915_bo_map ::
  "driver \<Rightarrow> kernel \<Rightarrow> bo \<Rightarrow> u64 \<Rightarrow> u32 \<Rightarrow> (u64 \<times> u64) \<times> kcall list" where
  "i915_bo_map drv k b vma_length map_flags =
     (let i915 = priv drv;
          policy = (if map_wants_wc drv b then I915_MMAP_OFFSET_WC else I915_MMAP_OFFSET_WB)
      in if meta_format_modifier b = I915_FORMAT_MOD_Y_TILED_CCS \<or>
            meta_format_modifier b = I915_FORMAT_MOD_Y_TILED_GEN12_RC_CCS \<or>
            meta_format_modifier b = I915_FORMAT_MOD_4_TILED_MTL_RC_CCS
         then ((MAP_FAILED, vma_length), [])
         else if has_mmap_offset i915 then
           (let flags = (if has_local_mem i915 then I915_MMAP_OFFSET_FIXED else policy);
                first = GEM_MMAP_OFFSET (handles b 0) flags;
                r1 = k first;
                retry = (kret r1 \<noteq> 0 \<and> flags = I915_MMAP_OFFSET_FIXED);
                second = GEM_MMAP_OFFSET (handles b 0) policy;
                r = (if retry then k second else r1);
                issued = (if retry then [first, second] else [first])
            in if kret r \<noteq> 0 then ((MAP_FAILED, vma_length), issued)
               else
                 (let m = MMAP (meta_total_size b) PROT_READ_WRITE (kvalue r)
                  in (map_finish b (kvalue (k m)) vma_length, issued @ [m])))
         else if meta_tiling b = I915_TILING_NONE then
           (let g = GEM_MMAP (handles b 0) 0 (meta_total_size b) (map_wants_wc drv b);
                r = k g;
                addr = (if kret r = 0 then kvalue r else MAP_FAILED)
            in (map_finish b addr vma_length, [g]))
         else
           (let gtt = GEM_MMAP_GTT (handles b 0);
                r = k gtt
            in if kret r \<noteq> 0 then
                 (let g = GEM_MMAP (handles b 0) 0 (meta_total_size b) (map_wants_wc drv b);
                      r2 = k g
                  in if kret r2 \<noteq> 0 then ((MAP_FAILED, vma_length), [gtt, g])
                     else ((kvalue r2, meta_total_size b), [gtt, g]))
               else
                 (let m = MMAP (meta_total_size b) (DRV_GET_PROT map_flags) (kvalue r)
                  in (map_finish b (kvalue (k m)) vma_length, [gtt, m]))))"

section \<open>A host for worked examples\<close>

text \<open>
  Modelled from the spec: the host services behind i915.c (drv.c and drv_helpers.c
  are not among the sources), for the formats of the spec's scenarios. The format
  oracle gives NV12 two planes, the Android YVU420 format three and every other format
  one; a row takes one byte per pixel for R8, NV12 and YVU420 and four for the
  32-bit RGB formats; chroma planes have half the height.
\<close>

definition example_num_planes :: "u32 \<Rightarrow> nat" where
  "example_num_planes format =
     (if format = DRM_FORMAT_NV12 then 2
      else if format = DRM_FORMAT_YVU420_ANDROID then 3 else 1)"

definition example_stride :: "u32 \<Rightarrow> u32 \<Rightarrow> nat \<Rightarrow> u32" where
  "example_stride format width plane =
     (if format = DRM_FORMAT_R8 \<or> format = DRM_FORMAT_NV12 \<or>
         format = DRM_FORMAT_YVU420_ANDROID
      then width else width * 4)"

definition example_height :: "u32 \<Rightarrow> u32 \<Rightarrow> nat \<Rightarrow> u32" where
  "example_height format height plane =
     (if plane = 0 then height else DIV_ROUND_UP height 2)"

text \<open>
  Modelled from the spec: the registry lookup, with the entries of highest priority
  that the registrar installs for render usage on a device without Tile4: the Y-tiled
  entry (priority 3) for the scanout and render formats, the linear entry (priority 1)
  for the texture-only formats.
\<close>

definition example_get_combination :: "u32 \<Rightarrow> u64 \<Rightarrow> combination option" where
  "example_get_combination format use_flags =
     (if format = DRM_FORMAT_ARGB8888 \<or> format = DRM_FORMAT_XRGB8888
      then Some \<lparr>combo_modifier = I915_FORMAT_MOD_Y_TILED, combo_tiling = I915_TILING_Y,
                 combo_priority = 3\<rparr>
      else if format = DRM_FORMAT_R8 \<or> format = DRM_FORMAT_NV12 \<or>
              format = DRM_FORMAT_YVU420_ANDROID
      then Some \<lparr>combo_modifier = DRM_FORMAT_MOD_LINEAR, combo_tiling = I915_TILING_NONE,
                 combo_priority = 1\<rparr>
      else None)"

text \<open>
  Modelled from the spec: "the highest-ranked modifier that appears in both the client
  list and the generation list", as the first entry of the generation order that the
  client list has.
\<close>

definition highest_ranked_common :: "u64 list \<Rightarrow> u64 list \<Rightarrow> u64 option" where
  "highest_ranked_common order ms = find (\<lambda>m. m \<in> set ms) order"

text \<open>
  Modelled from the spec: the modifier helper behind \<open>drv_pick_modifier\<close>. It returns a
  modifier and nothing else, and the spec does not say which when the lists have nothing
  in common; this host answers with the linear modifier.
\<close>

definition example_pick_modifier :: "u64 list \<Rightarrow> nat \<Rightarrow> u64 list \<Rightarrow> u64" where
  "example_pick_modifier ms count order =
     (case highest_ranked_common order (take count ms) of
        Some m \<Rightarrow> m
      | None \<Rightarrow> DRM_FORMAT_MOD_LINEAR)"

text \<open>Modelled from the spec: what the spec asks of the modifier helper behind
  \<open>drv_pick_modifier\<close>, as a property of a host.\<close>

definition picks_highest_ranked :: "driver \<Rightarrow> bool" where
  "picks_highest_ranked drv \<longleftrightarrow>
     (\<forall>ms order m. highest_ranked_common order ms = Some m \<longrightarrow>
        drv_pick_modifier drv ms (length ms) order = m)"

text \<open>
  What the registrar puts into the registry: \<open>i915_add_combinations\<close> registers the
  four metadata values \<open>metadata_linear\<close>, \<open>metadata_x_tiled\<close>, \<open>metadata_y_tiled\<close> and
  \<open>metadata_4_tiled\<close> and no other, so an entry of the registry has one of their four
  modifiers. As a property of a host.
\<close>

definition registry_uncompressed :: "driver \<Rightarrow> bool" where
  "registry_uncompressed drv \<longleftrightarrow>
     (\<forall>format use_flags combo.
        drv_get_combination drv format use_flags = Some combo \<longrightarrow>
        combo_modifier combo = DRM_FORMAT_MOD_LINEAR \<or>
        combo_modifier combo = I915_FORMAT_MOD_X_TILED \<or>
        combo_modifier combo = I915_FORMAT_MOD_Y_TILED \<or>
        combo_modifier combo = I915_FORMAT_MOD_4_TILED)"

text \<open>
  Modelled from the spec: "The chosen modifier always appears in the generation
  preference list", of the modifier helper behind \<open>drv_pick_modifier\<close> called with the
  order of the device, as a property of a host.
\<close>

definition picks_from_order :: "driver \<Rightarrow> bool" where
  "picks_from_order drv \<longleftrightarrow>
     (\<forall>ms count. drv_pick_modifier drv ms count (modifier_order (priv drv))
                   \<in> set (modifier_order (priv drv)))"

text \<open>The order of the device is the one \<open>i915_get_modifier_order\<close> gives its generation.\<close>

definition order_of_generation :: "driver \<Rightarrow> bool" where
  "order_of_generation drv \<longleftrightarrow>
     modifier_order (priv drv) = modifier_order (i915_get_modifier_order (priv drv))"

text \<open>
  Modelled from the spec: "the host's generic format-to-layout helper", for the three
  planes of the Android YVU420 format: the luma plane with the stride it is given, two
  chroma planes of half the height whose stride is \<open>ALIGN(stride / 2, 16)\<close>, one after
  the other, and their sum as the total.
\<close>

definition example_bo_from_format ::
  "bo \<Rightarrow> u32 \<Rightarrow> u32 \<Rightarrow> u32 \<Rightarrow> u32 \<Rightarrow> int \<times> plane_layout" where
  "example_bo_from_format b stride stride_align aligned_height format =
     (let luma = stride * aligned_height;
          chroma_stride = ALIGN (stride div 2) 16;
          chroma = chroma_stride * DIV_ROUND_UP aligned_height 2
      in (0,
          \<lparr>layout_strides = (meta_strides b)(0 := stride, 1 := chroma_stride, 2 := chroma_stride),
           layout_sizes = (meta_sizes b)(0 := luma, 1 := chroma, 2 := chroma),
           layout_offsets = (meta_offsets b)(0 := 0, 1 := luma, 2 := luma + chroma),
           layout_total_size = ucast (luma + chroma + chroma)\<rparr>))"

text \<open>
  A device of the given generation as \<open>i915_init\<close> leaves it on integrated hardware
  (one system memory region), and the host around it with 4 KiB pages.
\<close>

definition example_device :: "u32 \<Rightarrow> u32 \<Rightarrow> i915_device" where
  "example_device version sub =
     i915_get_modifier_order
       \<lparr>graphics_version = version, sub_version = sub, modifier_order = [],
        vram_region = (1, 0), vram_size = 0, sys_region = (0, 0),
        has_llc = True, has_hw_protection = (version \<ge> 12), is_xelpd = False,
        has_mmap_offset = True, has_local_mem = False, force_mem_local = False\<rparr>"

definition example_driver :: "u32 \<Rightarrow> u32 \<Rightarrow> bool \<Rightarrow> driver" where
  "example_driver version sub compr =
     \<lparr>priv = example_device version sub,
      compression = compr,
      pagesize = 4096,
      LINEAR_ALIGN_256 = False,
      drv_num_planes_from_format = example_num_planes,
      drv_stride_from_format = example_stride,
      drv_height_from_format = example_height,
      drv_get_combination = example_get_combination,
      drv_pick_modifier = example_pick_modifier,
      drv_bo_from_format = example_bo_from_format,
      BO_USE_SCANOUT = 0x1,
      BO_USE_RENDERSCRIPT = 0x10000,
      BO_USE_CAMERA_READ = 0x80,
      BO_USE_CAMERA_WRITE = 0x40,
      BO_USE_SW_READ_OFTEN = 0x200,
      BO_USE_SW_READ_RARELY = 0x400,
      BO_USE_SW_WRITE_OFTEN = 0x800,
      BO_USE_SW_WRITE_RARELY = 0x1000\<rparr>"

text \<open>
  Modelled from the spec: the buffer as the framework hands it to the planner. "The
  plane count for the planned buffer equals the pixel-format's default plane count,
  except for the compressed modifiers", and only the compressed branches of the planner
  assign it: the buffer comes with its format and the default plane count of the format
  recorded; everything else is zero.
\<close>

definition example_bo :: "u32 \<Rightarrow> u64 \<Rightarrow> bo" where
  "example_bo format use_flags =
     \<lparr>meta_format = format, meta_tiling = I915_TILING_NONE,
      meta_num_planes = example_num_planes format,
      meta_offsets = (\<lambda>_. 0), meta_sizes = (\<lambda>_. 0), meta_strides = (\<lambda>_. 0),
      meta_format_modifier = 0, meta_use_flags = use_flags, meta_total_size = 0,
      handles = (\<lambda>_. 0)\<rparr>"

text \<open>A kernel that grants every request and answers with the value 0x10000.\<close>

definition example_kernel :: kernel where
  "example_kernel c = \<lparr>kret = 0, kerrno = 0, kvalue = 0x10000\<rparr>"

section \<open>Unfolding the constants\<close>

lemmas modifier_defs =
  DRM_FORMAT_MOD_LINEAR_def I915_FORMAT_MOD_X_TILED_def I915_FORMAT_MOD_Y_TILED_def
  I915_FORMAT_MOD_Yf_TILED_def I915_FORMAT_MOD_Y_TILED_CCS_def
  I915_FORMAT_MOD_Yf_TILED_CCS_def I915_FORMAT_MOD_Y_TILED_GEN12_RC_CCS_def
  I915_FORMAT_MOD_4_TILED_def I915_FORMAT_MOD_4_TILED_MTL_RC_CCS_def

lemmas format_defs =
  DRM_FORMAT_R8_def DRM_FORMAT_NV12_def DRM_FORMAT_P010_def DRM_FORMAT_P016_def
  DRM_FORMAT_ARGB8888_def DRM_FORMAT_XRGB8888_def DRM_FORMAT_YVU420_ANDROID_def

lemmas example_defs =
  example_driver_def example_device_def example_bo_def example_kernel_def
  example_num_planes_def example_stride_def example_height_def
  example_get_combination_def example_pick_modifier_def example_bo_from_format_def
  highest_ranked_common_def i915_get_modifier_order_def i915_has_tile4_def
  GEN_VERSION_X10_def gen_modifier_order_def gen11_modifier_order_def
  gen12_modifier_order_def xe_lpdp_modifier_order_def

section \<open>Alignment arithmetic\<close>

lemma and_not_mask_minus:
  fixes y :: "'a::len word"
  shows "y AND NOT (mask k) = y - take_bit k y"
proof -
  have "push_bit k (drop_bit k y) = y AND NOT (mask k)"
    by (rule bit_eqI) (auto simp: bit_simps)
  moreover have "push_bit k (drop_bit k y) + take_bit k y = y"
    by (rule bits_ident)
  ultimately show ?thesis
    by (metis add_diff_cancel_right')
qed

lemma ALIGN_unat:
  fixes x :: "'a::len word"
  shows "unat (ALIGN x (2 ^ k)) = unat (x + (2 ^ k - 1)) - unat (x + (2 ^ k - 1)) mod 2 ^ k"
proof -
  let ?y = "x + (2 ^ k - 1)"
  have a: "ALIGN x (2 ^ k) = ?y - take_bit k ?y"
    by (simp add: ALIGN_def and_not_mask_minus flip: mask_eq_decr_exp)
  have u: "unat (take_bit k ?y) = unat ?y mod 2 ^ k"
    by (subst unsigned_take_bit_eq) (simp add: take_bit_eq_mod)
  have le: "take_bit k ?y \<le> ?y"
    unfolding word_le_nat_alt u by simp
  have "unat (?y - take_bit k ?y) = unat ?y - unat (take_bit k ?y)"
    using le by (rule unat_sub)
  then show ?thesis
    unfolding a u .
qed

lemma ALIGN_dvd:
  fixes x :: "'a::len word"
  shows "2 ^ k dvd unat (ALIGN x (2 ^ k))"
  unfolding ALIGN_unat by (rule dvd_minus_mod)

lemma IS_ALIGNED_dvd:
  fixes x :: "'a::len word"
  shows "IS_ALIGNED x (2 ^ k) \<Longrightarrow> 2 ^ k dvd unat x"
  unfolding IS_ALIGNED_def using ALIGN_dvd [of k x] by simp

lemma unat_ucast_u32_u64: "unat (ucast (x :: u32) :: u64) = unat x"
proof -
  have "unat x < 2 ^ 32" using unsigned_less [of x] by simp
  then have "unat x < 2 ^ 64" by simp
  then show ?thesis
    by (simp add: unsigned_ucast_eq take_bit_nat_eq_self)
qed

lemma dvd_unat_mult_4096: "4096 dvd unat (x * 4096 :: u32)"
proof -
  have "unat (x * 4096) = (unat x * 4096) mod 2 ^ 32"
    by (simp add: unat_word_ariths)
  moreover have "(4096::nat) dvd (unat x * 4096) mod 2 ^ 32"
    by (rule dvd_mod) simp_all
  ultimately show ?thesis by simp
qed

lemma ALIGN_4096_dvd: "4096 dvd unat (ALIGN (x :: u32) 4096)"
  using ALIGN_dvd [of 12 x] by simp

lemma ALIGN_65536_dvd: "65536 dvd unat (ALIGN (x :: u32) 65536)"
  using ALIGN_dvd [of 16 x] by simp

lemma ALIGN_65536_dvd_4096: "4096 dvd unat (ALIGN (x :: u32) 65536)"
  using ALIGN_65536_dvd [of x] by (rule dvd_trans [rotated]) simp

lemma ALIGN_4096_ge:
  assumes "unat (x :: u32) + 4095 < 2 ^ 32"
  shows "unat x \<le> unat (ALIGN x 4096)"
proof -
  have s: "unat (x + 4095) = unat x + 4095"
    using assms unat_add_lem [of x 4095] by simp
  have r: "(unat x + 4095) mod 4096 \<le> 4095"
    using mod_less_divisor [of 4096 "unat x + 4095"] by linarith
  have "unat (ALIGN x 4096) = unat (x + 4095) - unat (x + 4095) mod 4096"
    using ALIGN_unat [of x 12] by simp
  then show ?thesis
    unfolding s using r by linarith
qed

lemma IS_ALIGNED_4096_dvd: "IS_ALIGNED (x :: u32) 4096 \<Longrightarrow> 4096 dvd unat x"
  using IS_ALIGNED_dvd [of x 12] by simp

lemma dvd_unat_add_4096:
  fixes a b :: u32
  assumes "4096 dvd unat a" and "4096 dvd unat b"
  shows "4096 dvd unat (a + b)"
proof -
  have "unat (a + b) = (unat a + unat b) mod 2 ^ 32"
    by (simp add: unat_word_ariths)
  moreover have "(4096::nat) dvd (unat a + unat b) mod 2 ^ 32"
    by (rule dvd_mod) (use assms in simp_all)
  ultimately show ?thesis by simp
qed

lemma unat_add_no_wrap:
  fixes a b :: u32
  shows "unat a + unat b + 4095 < 2 ^ 32 \<Longrightarrow> unat (a + b) = unat a + unat b"
  using unat_add_lem [of a b] by simp

lemma unat_sum_words:
  fixes f :: "nat \<Rightarrow> u32"
  assumes "(\<Sum>p\<in>S. unat (f p)) < 2 ^ 32"
  shows "unat (\<Sum>p\<in>S. f p) = (\<Sum>p\<in>S. unat (f p))"
proof -
  have e: "(\<Sum>p\<in>S. f p) = of_nat (\<Sum>p\<in>S. unat (f p))"
    by (simp add: of_nat_sum)
  show ?thesis
    by (subst e, subst unat_of_nat) (use assms in simp)
qed

lemma sum_two: "(\<Sum>p<(2::nat). f p) = f 0 + (f 1 :: nat)"
  by (simp add: numeral_2_eq_2)

section \<open>The loop over the planes\<close>

lemma align_dimensions_ret: "fst (i915_align_dimensions drv b format tiling stride h) = 0"
  by (simp add: i915_align_dimensions_def Let_def split: prod.splits)

lemma loop_step:
  assumes "plane < drv_num_planes_from_format drv format"
  shows "i915_bo_from_format_loop drv width height format plane offset b =
     (if meta_tiling b \<noteq> I915_TILING_NONE \<and> \<not> IS_ALIGNED offset (pagesize drv)
      then Inl ASSERT_FAILED
      else i915_bo_from_format_loop drv width height format (Suc plane)
             (offset + plane_size drv b width height format plane)
             (b\<lparr>meta_strides := (meta_strides b)
                    (plane := plane_stride drv b width height format plane),
                meta_sizes := (meta_sizes b)
                    (plane := plane_size drv b width height format plane),
                meta_offsets := (meta_offsets b)(plane := offset)\<rparr>))"
proof -
  obtain r s h where a: "i915_align_dimensions drv b format (meta_tiling b)
                 (drv_stride_from_format drv format width plane)
                 (drv_height_from_format drv format height plane) = (r, s, h)"
    by (cases "i915_align_dimensions drv b format (meta_tiling b)
                 (drv_stride_from_format drv format width plane)
                 (drv_height_from_format drv format height plane)") auto
  have r: "r = 0" using align_dimensions_ret [of drv b format "meta_tiling b"
        "drv_stride_from_format drv format width plane"
        "drv_height_from_format drv format height plane"] a by simp
  show ?thesis
  proof (cases "meta_tiling b \<noteq> I915_TILING_NONE \<and> \<not> IS_ALIGNED offset (pagesize drv)")
    case True
    then show ?thesis
      by (subst i915_bo_from_format_loop.simps) (simp add: assms Let_def)
  next
    case False
    have "i915_bo_from_format_loop drv width height format plane offset b =
       i915_bo_from_format_loop drv width height format (Suc plane)
             (offset + plane_size drv b width height format plane)
             (b\<lparr>meta_strides := (meta_strides b)
                    (plane := plane_stride drv b width height format plane),
                meta_sizes := (meta_sizes b)
                    (plane := plane_size drv b width height format plane),
                meta_offsets := (meta_offsets b)(plane := offset)\<rparr>)"
      by (subst i915_bo_from_format_loop.simps)
         (simp only: assms False a r Let_def plane_size_def plane_stride_def plane_height_def
            if_True if_False prod.case fst_conv snd_conv simp_thms)
    with False show ?thesis by (simp only: if_False)
  qed
qed

lemma loop_done:
  "\<not> plane < drv_num_planes_from_format drv format \<Longrightarrow>
   i915_bo_from_format_loop drv width height format plane offset b = Inr (offset, b)"
  by (subst i915_bo_from_format_loop.simps) simp

lemma loop_preserves:
  "i915_bo_from_format_loop drv width height format plane offset b = Inr (offset', b') \<Longrightarrow>
     meta_tiling b' = meta_tiling b \<and> meta_format_modifier b' = meta_format_modifier b \<and>
     meta_num_planes b' = meta_num_planes b \<and> meta_format b' = meta_format b"
proof (induction "drv_num_planes_from_format drv format - plane" arbitrary: plane offset b)
  case 0
  then show ?case by (simp add: loop_done)
next
  case (Suc n)
  then have lt: "plane < drv_num_planes_from_format drv format" by simp
  let ?b1 = "b\<lparr>meta_strides := (meta_strides b)
                    (plane := plane_stride drv b width height format plane),
                meta_sizes := (meta_sizes b)
                    (plane := plane_size drv b width height format plane),
                meta_offsets := (meta_offsets b)(plane := offset)\<rparr>"
  from Suc.prems have run: "i915_bo_from_format_loop drv width height format (Suc plane)
             (offset + plane_size drv b width height format plane) ?b1 = Inr (offset', b')"
    by (simp add: loop_step [OF lt] split: if_splits)
  have "n = drv_num_planes_from_format drv format - Suc plane" using Suc.hyps(2) by simp
  from Suc.hyps(1) [OF this run] show ?case by simp
qed

lemma loop_error:
  "i915_bo_from_format_loop drv width height format plane offset b = Inl e \<Longrightarrow>
     e = ASSERT_FAILED"
proof (induction "drv_num_planes_from_format drv format - plane" arbitrary: plane offset b)
  case 0
  then show ?case by (simp add: loop_done)
next
  case (Suc n)
  then have lt: "plane < drv_num_planes_from_format drv format" by simp
  have n: "n = drv_num_planes_from_format drv format - Suc plane" using Suc.hyps(2) by simp
  show ?case
    using Suc.prems Suc.hyps(1) [OF n]
    by (simp add: loop_step [OF lt] split: if_splits)
qed

lemma loop_layout:
  "i915_bo_from_format_loop drv width height format plane offset b = Inr (offset', b') \<Longrightarrow>
     (\<forall>p<plane. meta_sizes b' p = meta_sizes b p \<and> meta_offsets b' p = meta_offsets b p) \<and>
     offset' = offset + (\<Sum>p = plane..<drv_num_planes_from_format drv format. meta_sizes b' p) \<and>
     (meta_tiling b \<noteq> I915_TILING_NONE \<longrightarrow>
        (\<forall>p. plane \<le> p \<and> p < drv_num_planes_from_format drv format \<longrightarrow>
             IS_ALIGNED (meta_offsets b' p) (pagesize drv)))"
proof (induction "drv_num_planes_from_format drv format - plane" arbitrary: plane offset b)
  case 0
  then show ?case by (auto simp: loop_done)
next
  case (Suc n)
  then have lt: "plane < drv_num_planes_from_format drv format" by simp
  have n: "n = drv_num_planes_from_format drv format - Suc plane" using Suc.hyps(2) by simp
  let ?size = "plane_size drv b width height format plane"
  let ?b1 = "b\<lparr>meta_strides := (meta_strides b)
                    (plane := plane_stride drv b width height format plane),
                meta_sizes := (meta_sizes b)(plane := ?size),
                meta_offsets := (meta_offsets b)(plane := offset)\<rparr>"
  from Suc.prems have ok: "meta_tiling b \<noteq> I915_TILING_NONE \<longrightarrow> IS_ALIGNED offset (pagesize drv)"
    and run: "i915_bo_from_format_loop drv width height format (Suc plane) (offset + ?size) ?b1
                = Inr (offset', b')"
    by (auto simp: loop_step [OF lt] split: if_splits)
  note ih = Suc.hyps(1) [OF n run]
  have sz: "meta_sizes b' plane = ?size" and off: "meta_offsets b' plane = offset"
    using ih by simp_all
  have keep: "\<forall>p<plane. meta_sizes b' p = meta_sizes b p \<and> meta_offsets b' p = meta_offsets b p"
    using ih by simp
  have sum: "offset' = offset + (\<Sum>p = plane..<drv_num_planes_from_format drv format.
                                   meta_sizes b' p)"
    using ih lt by (simp add: sum.atLeast_Suc_lessThan sz add.assoc)
  have al: "meta_tiling b \<noteq> I915_TILING_NONE \<longrightarrow>
        (\<forall>p. plane \<le> p \<and> p < drv_num_planes_from_format drv format \<longrightarrow>
             IS_ALIGNED (meta_offsets b' p) (pagesize drv))"
  proof (intro impI allI)
    fix p
    assume t: "meta_tiling b \<noteq> I915_TILING_NONE"
      and p: "plane \<le> p \<and> p < drv_num_planes_from_format drv format"
    show "IS_ALIGNED (meta_offsets b' p) (pagesize drv)"
    proof (cases "p = plane")
      case True
      then show ?thesis using ok t off by simp
    next
      case False
      then have "Suc plane \<le> p" using p by simp
      then show ?thesis using ih t p by simp
    qed
  qed
  show ?case using keep sum al by blast
qed

section \<open>The search in the client list\<close>

lemma modifier_scan_from_eq:
  "count = length ms \<Longrightarrow> i \<le> count \<Longrightarrow>
     (modifier_scan_from ms count wanted i = count) = (wanted \<notin> set (drop i ms))"
proof (induction "count - i" arbitrary: i)
  case 0
  then show ?case by (subst modifier_scan_from.simps) simp
next
  case (Suc n)
  then have lt: "i < length ms" by simp
  have n: "n = count - Suc i" using Suc.hyps(2) by simp
  have d: "drop i ms = ms ! i # drop (Suc i) ms"
    using lt by (simp add: Cons_nth_drop_Suc)
  show ?case
  proof (cases "ms ! i = wanted")
    case True
    then show ?thesis
      using lt Suc.prems d by (subst modifier_scan_from.simps) auto
  next
    case False
    have "modifier_scan_from ms count wanted i = modifier_scan_from ms count wanted (Suc i)"
      using lt Suc.prems False by (subst modifier_scan_from.simps) simp
    then show ?thesis
      using Suc.hyps(1) [OF n Suc.prems(1)] lt Suc.prems False d by auto
  qed
qed

lemma modifier_scan_eq:
  "modifiers_ok modifiers count \<Longrightarrow>
     (modifier_scan modifiers count wanted = count) = (\<not> client_has modifiers wanted)"
  using modifier_scan_from_eq [of count _ 0 wanted]
  by (auto simp: modifiers_ok_def modifier_scan_def client_has_def split: option.splits)

section \<open>The layout of a plan\<close>

lemma layout_preserves:
  assumes "compute_metadata_layout drv b width height format m = Inr b'"
  shows "meta_tiling b' = meta_tiling b \<and> meta_format_modifier b' = meta_format_modifier b \<and>
         meta_format b' = meta_format b"
proof -
  have e: "i915_bo_from_format drv b width height format = Inr b' \<Longrightarrow> ?thesis"
    by (auto simp: i915_bo_from_format_def split: sum.splits prod.splits dest: loop_preserves)
  show ?thesis
    using assms e
    by (auto simp: compute_metadata_layout_def Let_def rc_ccs_planes_def
             split: if_splits prod.splits sum.splits)
qed

lemma layout_error:
  assumes "compute_metadata_layout drv b width height format m = Inl e"
      and "format \<noteq> DRM_FORMAT_YVU420_ANDROID"
  shows "e = ASSERT_FAILED \<or> e = UNDEFINED_SHIFT"
proof -
  have l: "i915_bo_from_format drv b width height format = Inl e \<Longrightarrow> e = ASSERT_FAILED"
    by (auto simp: i915_bo_from_format_def split: sum.splits prod.splits dest: loop_error)
  have n: "i915_num_planes_from_modifier drv format m = Inl e \<Longrightarrow> e = ASSERT_FAILED"
    by (auto simp: i915_num_planes_from_modifier_def Let_def split: if_splits)
  show ?thesis
    using assms l n
    by (auto simp: compute_metadata_layout_def Let_def split: if_splits sum.splits)
qed

lemma layout_plain:
  assumes "compute_metadata_layout drv b width height format m = Inr b'"
      and "format \<noteq> DRM_FORMAT_YVU420_ANDROID"
      and "meta_tiling b = I915_TILING_NONE \<or>
           (m \<noteq> I915_FORMAT_MOD_Y_TILED_CCS \<and> m \<noteq> I915_FORMAT_MOD_Y_TILED_GEN12_RC_CCS \<and>
            m \<noteq> I915_FORMAT_MOD_4_TILED_MTL_RC_CCS)"
      and "meta_tiling b = compute_metadata_tiling old m"
  shows "i915_bo_from_format drv b width height format = Inr b'"
  using assms
  by (auto simp: compute_metadata_layout_def compute_metadata_tiling_def modifier_defs
           split: if_splits)

lemma plan_modifier:
  assumes "i915_bo_compute_metadata drv b width height format use_flags modifiers count = Inr b'"
  shows "compute_metadata_modifier drv width format use_flags modifiers count =
           Inr (meta_format_modifier b') \<and>
         meta_tiling b' = compute_metadata_tiling (meta_tiling b) (meta_format_modifier b')"
  using assms
  by (auto simp: i915_bo_compute_metadata_def split: sum.splits dest!: layout_preserves)

lemma plan_layout:
  assumes "i915_bo_compute_metadata drv b width height format use_flags modifiers count = Inr b'"
  shows "compute_metadata_layout drv
           (b\<lparr>meta_tiling := compute_metadata_tiling (meta_tiling b) (meta_format_modifier b'),
              meta_format_modifier := meta_format_modifier b'\<rparr>)
           width height format (meta_format_modifier b') = Inr b'"
proof -
  obtain m where l: "compute_metadata_layout drv
              (b\<lparr>meta_tiling := compute_metadata_tiling (meta_tiling b) m,
                 meta_format_modifier := m\<rparr>) width height format m = Inr b'"
    using assms by (auto simp: i915_bo_compute_metadata_def split: sum.splits)
  have "meta_format_modifier b' = m" using layout_preserves [OF l] by simp
  then show ?thesis using l by simp
qed

text \<open>The three properties of a layout, for the two planes of a compressed one.\<close>

lemma two_plane_layout:
  fixes size0 size1 :: u32
  assumes "4096 dvd unat size0" and "4096 dvd unat size1"
      and "meta_num_planes b' = 2"
      and "meta_sizes b' 0 = size0" and "meta_sizes b' 1 = size1"
      and "meta_offsets b' 0 = 0" and "meta_offsets b' 1 = size0"
      and "meta_total_size b' = ucast (size0 + size1)"
  shows "4096 dvd unat (meta_total_size b') \<and>
         ((\<Sum>p<meta_num_planes b'. unat (meta_sizes b' p)) + 4095 < 2 ^ 32 \<longrightarrow>
          (\<Sum>p<meta_num_planes b'. unat (meta_sizes b' p)) \<le> unat (meta_total_size b')) \<and>
         (\<forall>p<meta_num_planes b'. 4096 dvd unat (meta_offsets b' p))"
proof -
  have o: "p < 2 \<Longrightarrow> p = 0 \<or> p = 1" for p :: nat by auto
  show ?thesis
    using assms dvd_unat_add_4096 [OF assms(1,2)]
    by (auto simp: unat_ucast_u32_u64 sum_two unat_add_no_wrap dest!: o)
qed

lemma plain_layout:
  assumes "i915_bo_from_format drv b width height format = Inr b'"
      and "pagesize drv = 4096"
      and "meta_num_planes b = drv_num_planes_from_format drv format"
  shows "4096 dvd unat (meta_total_size b') \<and>
         ((\<Sum>p<meta_num_planes b'. unat (meta_sizes b' p)) + 4095 < 2 ^ 32 \<longrightarrow>
          (\<Sum>p<meta_num_planes b'. unat (meta_sizes b' p)) \<le> unat (meta_total_size b')) \<and>
         (meta_tiling b' \<noteq> I915_TILING_NONE \<longrightarrow>
            (\<forall>p<meta_num_planes b'. 4096 dvd unat (meta_offsets b' p)))"
proof -
  let ?n = "drv_num_planes_from_format drv format"
  obtain offset b2 where
    run: "i915_bo_from_format_loop drv width height format 0 0 b = Inr (offset, b2)"
    and b': "b' = b2\<lparr>meta_total_size := ucast (ALIGN offset (pagesize drv))\<rparr>"
    using assms(1) by (auto simp: i915_bo_from_format_def split: sum.splits prod.splits)
  note keep = loop_preserves [OF run]
  note lay = loop_layout [OF run]
  have n: "meta_num_planes b' = ?n" using keep assms(3) b' by simp
  have off: "offset = (\<Sum>p<?n. meta_sizes b' p)"
    using lay b' by (simp add: atLeast0LessThan)
  have total: "unat (meta_total_size b') = unat (ALIGN offset 4096)"
    using b' assms(2) by (simp add: unat_ucast_u32_u64)
  have d: "4096 dvd unat (meta_total_size b')"
    unfolding total by (rule ALIGN_4096_dvd)
  have s: "(\<Sum>p<?n. unat (meta_sizes b' p)) \<le> unat (meta_total_size b')"
    if "(\<Sum>p<?n. unat (meta_sizes b' p)) + 4095 < 2 ^ 32"
  proof -
    have "unat offset = (\<Sum>p<?n. unat (meta_sizes b' p))"
      unfolding off using that by (intro unat_sum_words) simp
    then show ?thesis
      unfolding total using ALIGN_4096_ge [of offset] that by simp
  qed
  have a: "4096 dvd unat (meta_offsets b' p)"
    if "meta_tiling b' \<noteq> I915_TILING_NONE" and "p < ?n" for p
    using lay that keep b' assms(2) by (auto intro!: IS_ALIGNED_4096_dvd)
  show ?thesis using d s a n by simp
qed

lemma compressed_layout:
  assumes "compute_metadata_layout drv b width height format m = Inr b'"
      and "format \<noteq> DRM_FORMAT_YVU420_ANDROID"
      and "m = I915_FORMAT_MOD_Y_TILED_CCS \<or> m = I915_FORMAT_MOD_Y_TILED_GEN12_RC_CCS \<or>
           m = I915_FORMAT_MOD_4_TILED_MTL_RC_CCS"
  shows "4096 dvd unat (meta_sizes b' 0) \<and>
         (pagesize drv = 4096 \<longrightarrow> 4096 dvd unat (meta_sizes b' 1)) \<and>
         meta_num_planes b' = 2 \<and> meta_offsets b' 0 = 0 \<and>
         meta_offsets b' 1 = meta_sizes b' 0 \<and>
         meta_total_size b' = ucast (meta_sizes b' 0 + meta_sizes b' 1)"
proof -
  have n: "i915_num_planes_from_modifier drv format m = Inr k \<Longrightarrow> k = 2" for k
    using assms(3) by (auto simp: i915_num_planes_from_modifier_def Let_def split: if_splits)
  have d: "4096 dvd unat (x * y * 4096 :: u32)" for x y
    using dvd_unat_mult_4096 [of "x * y"] by simp
  have r: "4096 dvd unat (meta_sizes (rc_ccs_planes drv b s h k) 0) \<and>
         (pagesize drv = 4096 \<longrightarrow> 4096 dvd unat (meta_sizes (rc_ccs_planes drv b s h k) 1)) \<and>
         meta_num_planes (rc_ccs_planes drv b s h k) = k \<and>
         meta_offsets (rc_ccs_planes drv b s h k) 0 = 0 \<and>
         meta_offsets (rc_ccs_planes drv b s h k) 1 = meta_sizes (rc_ccs_planes drv b s h k) 0 \<and>
         meta_total_size (rc_ccs_planes drv b s h k) =
           ucast (meta_sizes (rc_ccs_planes drv b s h k) 0 +
                  meta_sizes (rc_ccs_planes drv b s h k) 1)" for s h k
    by (simp add: rc_ccs_planes_def Let_def ALIGN_65536_dvd_4096 ALIGN_4096_dvd)
  from assms(3) show ?thesis
  proof (elim disjE)
    assume m: "m = I915_FORMAT_MOD_Y_TILED_CCS"
    show ?thesis
      using assms(1,2) n d unfolding m
      by (auto simp: compute_metadata_layout_def Let_def split: sum.splits)
  next
    assume m: "m = I915_FORMAT_MOD_Y_TILED_GEN12_RC_CCS"
    have ne: "I915_FORMAT_MOD_Y_TILED_GEN12_RC_CCS \<noteq> I915_FORMAT_MOD_Y_TILED_CCS"
      by (simp add: modifier_defs)
    show ?thesis
      using assms(1,2) n r ne unfolding m
      by (auto simp: compute_metadata_layout_def Let_def split: sum.splits if_splits)
  next
    assume m: "m = I915_FORMAT_MOD_4_TILED_MTL_RC_CCS"
    have ne: "I915_FORMAT_MOD_4_TILED_MTL_RC_CCS \<noteq> I915_FORMAT_MOD_Y_TILED_CCS"
             "I915_FORMAT_MOD_4_TILED_MTL_RC_CCS \<noteq> I915_FORMAT_MOD_Y_TILED_GEN12_RC_CCS"
      by (simp_all add: modifier_defs)
    show ?thesis
      using assms(1,2) r ne unfolding m
      by (auto simp: compute_metadata_layout_def Let_def)
  qed
qed

section \<open>The modifier after the overrides\<close>

lemma overrides_result:
  "compute_metadata_gen8 drv format
     (compute_metadata_compression drv modifiers count
        (compute_metadata_huge_bo drv width format modifiers count m)) = m \<or>
   compute_metadata_gen8 drv format
     (compute_metadata_compression drv modifiers count
        (compute_metadata_huge_bo drv width format modifiers count m))
     \<in> {DRM_FORMAT_MOD_LINEAR, I915_FORMAT_MOD_X_TILED, I915_FORMAT_MOD_Y_TILED}"
  by (simp add: compute_metadata_gen8_def compute_metadata_compression_def
        compute_metadata_huge_bo_def Let_def)

lemma generation_order_cases:
  "modifier_order (i915_get_modifier_order i915) =
     (if i915_has_tile4 i915 then xe_lpdp_modifier_order
      else if graphics_version i915 = 12 then gen12_modifier_order
      else if graphics_version i915 = 11 then gen11_modifier_order
      else gen_modifier_order)"
  by (simp add: i915_get_modifier_order_def)

lemma selected_modifier:
  assumes "registry_uncompressed drv" and "picks_from_order drv" and "order_of_generation drv"
      and "compute_metadata_select drv format use_flags modifiers count = Inr m"
  shows "m \<noteq> I915_FORMAT_MOD_Yf_TILED_CCS \<and>
         (m = I915_FORMAT_MOD_Y_TILED_GEN12_RC_CCS \<longrightarrow>
            modifiers \<noteq> None \<and> graphics_version (priv drv) = 12 \<and>
            \<not> i915_has_tile4 (priv drv)) \<and>
         (m = I915_FORMAT_MOD_4_TILED_MTL_RC_CCS \<longrightarrow>
            modifiers \<noteq> None \<and> i915_has_tile4 (priv drv))"
proof (cases modifiers)
  case None
  then obtain combo where "drv_get_combination drv format use_flags = Some combo"
    and "m = combo_modifier combo"
    using assms(4) by (auto simp: compute_metadata_select_def split: option.splits)
  then have "m = DRM_FORMAT_MOD_LINEAR \<or> m = I915_FORMAT_MOD_X_TILED \<or>
             m = I915_FORMAT_MOD_Y_TILED \<or> m = I915_FORMAT_MOD_4_TILED"
    using assms(1) by (auto simp: registry_uncompressed_def)
  then show ?thesis by (auto simp: modifier_defs)
next
  case (Some ms)
  then have "m \<in> set (modifier_order (priv drv))"
    using assms(2,4) by (auto simp: compute_metadata_select_def picks_from_order_def)
  then have "m \<in> set (modifier_order (i915_get_modifier_order (priv drv)))"
    using assms(3) by (simp add: order_of_generation_def)
  then show ?thesis
    using Some
    by (auto simp: generation_order_cases xe_lpdp_modifier_order_def gen12_modifier_order_def
          gen11_modifier_order_def gen_modifier_order_def modifier_defs split: if_splits)
qed

section \<open>Evaluating the examples\<close>

lemma example_picks_highest_ranked: "picks_highest_ranked (example_driver version sub compr)"
  by (simp add: picks_highest_ranked_def example_driver_def example_pick_modifier_def)

lemma example_registry_uncompressed: "registry_uncompressed (example_driver version sub compr)"
  by (simp add: registry_uncompressed_def example_driver_def example_get_combination_def
        split: if_splits)

lemma example_order_of_generation: "order_of_generation (example_driver version sub compr)"
  by (simp add: order_of_generation_def example_driver_def example_device_def
        i915_get_modifier_order_def i915_has_tile4_def GEN_VERSION_X10_def)

lemma example_picks_from_order: "picks_from_order (example_driver version sub compr)"
proof -
  have l: "DRM_FORMAT_MOD_LINEAR \<in> set (modifier_order (example_device version sub))"
    by (simp add: example_device_def i915_get_modifier_order_def xe_lpdp_modifier_order_def
          gen12_modifier_order_def gen11_modifier_order_def gen_modifier_order_def)
  have "example_pick_modifier ms count order \<in> set order"
    if "DRM_FORMAT_MOD_LINEAR \<in> set order" for ms count order
    using that
    by (auto simp: example_pick_modifier_def highest_ranked_common_def find_Some_iff
             split: option.splits)
  then show ?thesis
    using l by (simp add: picks_from_order_def example_driver_def)
qed

lemmas plan_defs =
  i915_bo_compute_metadata_def compute_metadata_modifier_def compute_metadata_select_def
  compute_metadata_huge_bo_def compute_metadata_compression_def compute_metadata_gen8_def
  compute_metadata_tiling_def compute_metadata_layout_def i915_bo_from_format_def
  modifier_scan_def modifiers_ok_def client_has_def
  loop_step loop_done plane_size_def plane_stride_def plane_height_def
  i915_align_dimensions_def i915_format_needs_LCU_alignment_def
  i915_num_planes_from_modifier_def rc_ccs_planes_def
  ALIGN_def IS_ALIGNED_def DIV_ROUND_UP_def

section \<open>Surfaces wider than 4096 before generation 11\<close>

text \<open>
  C1, as the code has it. On a device with \<open>graphics_version < 11\<close>, for a width above
  4096 and a format other than NV12 and P010, when the modifier selected so far is
  neither X-tiled nor linear, the planner forces the modifier to X-tiled if X-tiled is
  in the client list, and to linear otherwise, also when the client gave no list: the
  generation list is not consulted. That is the modifier of the plan, except that on
  \<open>graphics_version \<le> 8\<close> an ARGB8888 plan is made linear afterwards.
\<close>

theorem huge_bo_forces_x_tiled_or_linear:
  assumes "graphics_version (priv drv) < 11" and "width > 4096"
      and "format \<noteq> DRM_FORMAT_NV12" and "format \<noteq> DRM_FORMAT_P010"
      and "modifiers_ok modifiers count"
      and "compute_metadata_select drv format use_flags modifiers count = Inr m"
      and "m \<noteq> I915_FORMAT_MOD_X_TILED" and "m \<noteq> DRM_FORMAT_MOD_LINEAR"
  shows "compute_metadata_huge_bo drv width format modifiers count m =
           (if client_has modifiers I915_FORMAT_MOD_X_TILED
            then I915_FORMAT_MOD_X_TILED else DRM_FORMAT_MOD_LINEAR) \<and>
         (\<forall>b'. i915_bo_compute_metadata drv b width height format use_flags modifiers count
                 = Inr b' \<longrightarrow>
            meta_format_modifier b' =
              (if graphics_version (priv drv) \<le> 8 \<and> format = DRM_FORMAT_ARGB8888
               then DRM_FORMAT_MOD_LINEAR
               else if client_has modifiers I915_FORMAT_MOD_X_TILED
               then I915_FORMAT_MOD_X_TILED else DRM_FORMAT_MOD_LINEAR))"
proof -
  have h: "compute_metadata_huge_bo drv width format modifiers count m =
           (if client_has modifiers I915_FORMAT_MOD_X_TILED
            then I915_FORMAT_MOD_X_TILED else DRM_FORMAT_MOD_LINEAR)"
    using assms by (simp add: compute_metadata_huge_bo_def modifier_scan_eq)
  have c: "compute_metadata_compression drv modifiers count
             (compute_metadata_huge_bo drv width format modifiers count m) =
           compute_metadata_huge_bo drv width format modifiers count m"
    unfolding h by (simp add: compute_metadata_compression_def modifier_defs)
  show ?thesis
    using h c assms(6)
    by (auto simp: compute_metadata_modifier_def compute_metadata_gen8_def
             dest!: plan_modifier)
qed

theorem huge_bo_forces_x_tiled_or_linear_witness:
  "graphics_version (priv (example_driver 9 0 True)) < 11 \<and> (5000 :: u32) > 4096 \<and>
   meta_format_modifier (projr (i915_bo_compute_metadata (example_driver 9 0 True)
     (example_bo DRM_FORMAT_ARGB8888 4) 5000 1000 DRM_FORMAT_ARGB8888 4
     (Some [I915_FORMAT_MOD_Y_TILED, I915_FORMAT_MOD_X_TILED]) 2)) = I915_FORMAT_MOD_X_TILED \<and>
   modifiers_ok (Some [I915_FORMAT_MOD_Y_TILED, I915_FORMAT_MOD_X_TILED]) 2 \<and>
   compute_metadata_select (example_driver 9 0 True) DRM_FORMAT_ARGB8888 4
     (Some [I915_FORMAT_MOD_Y_TILED, I915_FORMAT_MOD_X_TILED]) 2 = Inr I915_FORMAT_MOD_Y_TILED \<and>
   compute_metadata_huge_bo (example_driver 9 0 True) 5000 DRM_FORMAT_ARGB8888
     (Some [I915_FORMAT_MOD_Y_TILED, I915_FORMAT_MOD_X_TILED]) 2 I915_FORMAT_MOD_Y_TILED
     = I915_FORMAT_MOD_X_TILED"
proof -
  let ?drv = "example_driver 9 0 True"
  let ?ms = "Some [I915_FORMAT_MOD_Y_TILED, I915_FORMAT_MOD_X_TILED]"
  have a: "graphics_version (priv ?drv) < 11" by (simp add: example_defs)
  have b: "(5000 :: u32) > 4096" by simp
  have c: "DRM_FORMAT_ARGB8888 \<noteq> DRM_FORMAT_NV12" "DRM_FORMAT_ARGB8888 \<noteq> DRM_FORMAT_P010"
    by (simp_all add: format_defs)
  have d: "modifiers_ok ?ms 2" by (simp add: modifiers_ok_def)
  have e: "compute_metadata_select ?drv DRM_FORMAT_ARGB8888 4 ?ms 2 = Inr I915_FORMAT_MOD_Y_TILED"
    by (simp add: compute_metadata_select_def example_defs modifier_defs)
  have f: "I915_FORMAT_MOD_Y_TILED \<noteq> I915_FORMAT_MOD_X_TILED"
          "I915_FORMAT_MOD_Y_TILED \<noteq> DRM_FORMAT_MOD_LINEAR"
    by (simp_all add: modifier_defs)
  have p: "i915_bo_compute_metadata ?drv (example_bo DRM_FORMAT_ARGB8888 4) 5000 1000
             DRM_FORMAT_ARGB8888 4 ?ms 2 =
           Inr (projr (i915_bo_compute_metadata ?drv (example_bo DRM_FORMAT_ARGB8888 4)
             5000 1000 DRM_FORMAT_ARGB8888 4 ?ms 2))"
    by (simp add: plan_defs example_defs format_defs modifier_defs modifier_scan_from.simps)
  show ?thesis
    using a b d e p
      huge_bo_forces_x_tiled_or_linear [OF a b c d e f, of "example_bo DRM_FORMAT_ARGB8888 4" 1000]
    by (simp add: client_has_def example_defs format_defs)
qed

text \<open>
  On generation 9, whose preference list has the X-tiled modifier, an ARGB8888 plan of
  5000 by 1000 for rendering without a client list (\<open>NULL\<close>, count 0) starts from the
  Y-tiled modifier of the registry and ends linear.
\<close>

theorem huge_bo_no_client_list_counterexample:
  "graphics_version (priv (example_driver 9 0 True)) = 9 \<and>
   I915_FORMAT_MOD_X_TILED \<in> set (modifier_order (priv (example_driver 9 0 True))) \<and>
   compute_metadata_select (example_driver 9 0 True) DRM_FORMAT_ARGB8888 4 None 0
     = Inr I915_FORMAT_MOD_Y_TILED \<and>
   \<not> isl (i915_bo_compute_metadata (example_driver 9 0 True) (example_bo DRM_FORMAT_ARGB8888 4)
            5000 1000 DRM_FORMAT_ARGB8888 4 None 0) \<and>
   meta_format_modifier
     (projr (i915_bo_compute_metadata (example_driver 9 0 True) (example_bo DRM_FORMAT_ARGB8888 4)
               5000 1000 DRM_FORMAT_ARGB8888 4 None 0)) = DRM_FORMAT_MOD_LINEAR \<and>
   DRM_FORMAT_MOD_LINEAR \<noteq> I915_FORMAT_MOD_X_TILED"
  by (simp add: plan_defs example_defs format_defs modifier_defs)

section \<open>Dimension alignment on Xe hardware\<close>

text \<open>
  C2, as the code has it. On a device with \<open>gen_x10 \<ge> 125\<close> the alignment depends on the
  tiling exactly as on the older generations: linear 64 (256 under \<open>LINEAR_ALIGN_256\<close>)
  by 4 (by 1 for R8 of height 1), X 512 by 8, Y and Tile4 128 by 32. The values 4 by 4
  are what is left only for a tiling value that is none of the four modes. The stride is
  not aligned at all when the format of the buffer is R8.
\<close>

theorem align_dimensions_gen125:
  assumes "GEN_VERSION_X10 (priv drv) \<ge> 125"
  shows "i915_align_dimensions drv b format tiling stride h =
     (0,
      if meta_format b = DRM_FORMAT_R8 then stride
      else ALIGN stride
        (case tiling of
           I915_TILING_NONE \<Rightarrow> if LINEAR_ALIGN_256 drv then 256 else 64
         | I915_TILING_X \<Rightarrow> 512 | I915_TILING_Y \<Rightarrow> 128 | I915_TILING_4 \<Rightarrow> 128
         | I915_TILING_OTHER v \<Rightarrow> 4),
      ALIGN h
        (case tiling of
           I915_TILING_NONE \<Rightarrow> if format = DRM_FORMAT_R8 \<and> h = 1 then 1 else 4
         | I915_TILING_X \<Rightarrow> 8 | I915_TILING_Y \<Rightarrow> 32 | I915_TILING_4 \<Rightarrow> 32
         | I915_TILING_OTHER v \<Rightarrow> 4))"
  using assms by (cases tiling) (simp_all add: i915_align_dimensions_def Let_def)

theorem align_dimensions_gen125_witness:
  "GEN_VERSION_X10 (priv (example_driver 12 5 True)) \<ge> 125 \<and>
   i915_align_dimensions (example_driver 12 5 True) (example_bo DRM_FORMAT_ARGB8888 0)
     DRM_FORMAT_ARGB8888 I915_TILING_4 100 10 = (0, 128, 32)"
proof -
  have g: "GEN_VERSION_X10 (priv (example_driver 12 5 True)) \<ge> 125"
    by (simp add: example_defs)
  show ?thesis
    using g align_dimensions_gen125 [OF g, of "example_bo DRM_FORMAT_ARGB8888 0"
       DRM_FORMAT_ARGB8888 I915_TILING_4 100 10]
    by (simp add: example_defs format_defs ALIGN_def)
qed

text \<open>
  On generation 12.5 an X-tiled ARGB8888 plane of stride 100 and height 10 comes out as
  512 by 16, where an alignment to 4 by 4 would give 100 by 12.
\<close>

theorem align_dimensions_gen125_counterexample:
  "GEN_VERSION_X10 (priv (example_driver 12 5 True)) \<ge> 125 \<and>
   i915_align_dimensions (example_driver 12 5 True) (example_bo DRM_FORMAT_ARGB8888 0)
     DRM_FORMAT_ARGB8888 I915_TILING_X 100 10 = (0, 512, 16) \<and>
   ALIGN (100 :: u32) 4 = 100 \<and> ALIGN (10 :: u32) 4 = 12"
  by (simp add: example_defs format_defs ALIGN_def i915_align_dimensions_def)

section \<open>Compression disabled\<close>

text \<open>
  C3, as the code has it. A plan computed while the host reports compression disabled
  never has the modifier \<open>Y_TILED_CCS\<close>: the rule replaces that modifier by \<open>Y_TILED\<close> if
  the client list has it and by the linear modifier otherwise, and it replaces no other
  modifier. On a host whose registry holds what the registrar installs and whose helper
  picks from the order of the generation, such a plan never has \<open>Yf_TILED_CCS\<close> either; it
  has \<open>Y_TILED_GEN12_RC_CCS\<close> only on a device of graphics version 12 without Tile4 and
  only from a client list, and \<open>4_TILED_MTL_RC_CCS\<close> only on a device with Tile4 and only
  from a client list. So without a client list, and on every device before generation
  12, the modifier of the plan is no CCS modifier at all.
\<close>

theorem compression_disabled_ccs:
  assumes "\<not> compression drv"
  shows "(\<forall>b'. i915_bo_compute_metadata drv b width height format use_flags modifiers count
                 = Inr b' \<longrightarrow>
              meta_format_modifier b' \<noteq> I915_FORMAT_MOD_Y_TILED_CCS) \<and>
         (modifiers_ok modifiers count \<longrightarrow>
            compute_metadata_compression drv modifiers count I915_FORMAT_MOD_Y_TILED_CCS =
              (if client_has modifiers I915_FORMAT_MOD_Y_TILED
               then I915_FORMAT_MOD_Y_TILED else DRM_FORMAT_MOD_LINEAR)) \<and>
         (\<forall>m. m \<noteq> I915_FORMAT_MOD_Y_TILED_CCS \<longrightarrow>
              compute_metadata_compression drv modifiers count m = m) \<and>
         (registry_uncompressed drv \<and> picks_from_order drv \<and> order_of_generation drv \<longrightarrow>
            (\<forall>b'. i915_bo_compute_metadata drv b width height format use_flags modifiers count
                    = Inr b' \<longrightarrow>
               meta_format_modifier b' \<noteq> I915_FORMAT_MOD_Yf_TILED_CCS \<and>
               (meta_format_modifier b' = I915_FORMAT_MOD_Y_TILED_GEN12_RC_CCS \<longrightarrow>
                  modifiers \<noteq> None \<and> graphics_version (priv drv) = 12 \<and>
                  \<not> i915_has_tile4 (priv drv)) \<and>
               (meta_format_modifier b' = I915_FORMAT_MOD_4_TILED_MTL_RC_CCS \<longrightarrow>
                  modifiers \<noteq> None \<and> i915_has_tile4 (priv drv))))"
proof -
  have c: "compute_metadata_compression drv modifiers count m \<noteq> I915_FORMAT_MOD_Y_TILED_CCS"
    for m
    using assms by (simp add: compute_metadata_compression_def modifier_defs)
  have g: "m \<noteq> I915_FORMAT_MOD_Y_TILED_CCS \<Longrightarrow>
           compute_metadata_gen8 drv format m \<noteq> I915_FORMAT_MOD_Y_TILED_CCS" for m
    by (simp add: compute_metadata_gen8_def modifier_defs)
  have p: "meta_format_modifier b' \<noteq> I915_FORMAT_MOD_Y_TILED_CCS"
    if "i915_bo_compute_metadata drv b width height format use_flags modifiers count = Inr b'"
    for b'
    using plan_modifier [OF that] g [OF c]
    by (auto simp: compute_metadata_modifier_def split: sum.splits)
  have d: "modifiers_ok modifiers count \<Longrightarrow>
            compute_metadata_compression drv modifiers count I915_FORMAT_MOD_Y_TILED_CCS =
              (if client_has modifiers I915_FORMAT_MOD_Y_TILED
               then I915_FORMAT_MOD_Y_TILED else DRM_FORMAT_MOD_LINEAR)"
    using assms by (simp add: compute_metadata_compression_def modifier_scan_eq)
  have u: "m \<noteq> I915_FORMAT_MOD_Y_TILED_CCS \<Longrightarrow>
              compute_metadata_compression drv modifiers count m = m" for m
    by (simp add: compute_metadata_compression_def)
  have h: "meta_format_modifier b' \<noteq> I915_FORMAT_MOD_Yf_TILED_CCS \<and>
               (meta_format_modifier b' = I915_FORMAT_MOD_Y_TILED_GEN12_RC_CCS \<longrightarrow>
                  modifiers \<noteq> None \<and> graphics_version (priv drv) = 12 \<and>
                  \<not> i915_has_tile4 (priv drv)) \<and>
               (meta_format_modifier b' = I915_FORMAT_MOD_4_TILED_MTL_RC_CCS \<longrightarrow>
                  modifiers \<noteq> None \<and> i915_has_tile4 (priv drv))"
    if host: "registry_uncompressed drv \<and> picks_from_order drv \<and> order_of_generation drv"
      and plan: "i915_bo_compute_metadata drv b width height format use_flags modifiers count
                   = Inr b'"
    for b'
  proof -
    obtain m where m: "compute_metadata_select drv format use_flags modifiers count = Inr m"
      and f: "meta_format_modifier b' =
                compute_metadata_gen8 drv format
                  (compute_metadata_compression drv modifiers count
                     (compute_metadata_huge_bo drv width format modifiers count m))"
      using plan_modifier [OF plan]
      by (auto simp: compute_metadata_modifier_def split: sum.splits)
    note s = selected_modifier [OF host [THEN conjunct1] host [THEN conjunct2, THEN conjunct1]
                host [THEN conjunct2, THEN conjunct2] m]
    from overrides_result [of drv format modifiers count width m]
    have "meta_format_modifier b' = m \<or>
          meta_format_modifier b' \<in>
            {DRM_FORMAT_MOD_LINEAR, I915_FORMAT_MOD_X_TILED, I915_FORMAT_MOD_Y_TILED}"
      unfolding f .
    then show ?thesis
    proof
      assume "meta_format_modifier b' = m"
      then show ?thesis using s by simp
    next
      assume "meta_format_modifier b' \<in>
            {DRM_FORMAT_MOD_LINEAR, I915_FORMAT_MOD_X_TILED, I915_FORMAT_MOD_Y_TILED}"
      then show ?thesis by (auto simp: modifier_defs)
    qed
  qed
  have first: "\<forall>b'. i915_bo_compute_metadata drv b width height format use_flags modifiers count
                 = Inr b' \<longrightarrow>
              meta_format_modifier b' \<noteq> I915_FORMAT_MOD_Y_TILED_CCS"
    using p by blast
  have second: "modifiers_ok modifiers count \<longrightarrow>
            compute_metadata_compression drv modifiers count I915_FORMAT_MOD_Y_TILED_CCS =
              (if client_has modifiers I915_FORMAT_MOD_Y_TILED
               then I915_FORMAT_MOD_Y_TILED else DRM_FORMAT_MOD_LINEAR)"
    using d by blast
  have third: "\<forall>m. m \<noteq> I915_FORMAT_MOD_Y_TILED_CCS \<longrightarrow>
              compute_metadata_compression drv modifiers count m = m"
    using u by blast
  have fourth: "registry_uncompressed drv \<and> picks_from_order drv \<and> order_of_generation drv \<longrightarrow>
            (\<forall>b'. i915_bo_compute_metadata drv b width height format use_flags modifiers count
                    = Inr b' \<longrightarrow>
               meta_format_modifier b' \<noteq> I915_FORMAT_MOD_Yf_TILED_CCS \<and>
               (meta_format_modifier b' = I915_FORMAT_MOD_Y_TILED_GEN12_RC_CCS \<longrightarrow>
                  modifiers \<noteq> None \<and> graphics_version (priv drv) = 12 \<and>
                  \<not> i915_has_tile4 (priv drv)) \<and>
               (meta_format_modifier b' = I915_FORMAT_MOD_4_TILED_MTL_RC_CCS \<longrightarrow>
                  modifiers \<noteq> None \<and> i915_has_tile4 (priv drv)))"
    using h by blast
  show ?thesis
    by (intro conjI first second third fourth)
qed


theorem compression_disabled_ccs_witness:
  "\<not> compression (example_driver 9 0 False) \<and>
   modifiers_ok (Some [I915_FORMAT_MOD_Y_TILED_CCS, I915_FORMAT_MOD_Y_TILED]) 2 \<and>
   registry_uncompressed (example_driver 9 0 False) \<and>
   picks_from_order (example_driver 9 0 False) \<and>
   order_of_generation (example_driver 9 0 False) \<and>
   \<not> isl (i915_bo_compute_metadata (example_driver 9 0 False)
            (example_bo DRM_FORMAT_XRGB8888 4) 64 64 DRM_FORMAT_XRGB8888 4
            (Some [I915_FORMAT_MOD_Y_TILED_CCS, I915_FORMAT_MOD_Y_TILED]) 2) \<and>
   meta_format_modifier
     (projr (i915_bo_compute_metadata (example_driver 9 0 False)
            (example_bo DRM_FORMAT_XRGB8888 4) 64 64 DRM_FORMAT_XRGB8888 4
            (Some [I915_FORMAT_MOD_Y_TILED_CCS, I915_FORMAT_MOD_Y_TILED]) 2))
     \<noteq> I915_FORMAT_MOD_Y_TILED_CCS \<and>
   meta_format_modifier
     (projr (i915_bo_compute_metadata (example_driver 9 0 False)
            (example_bo DRM_FORMAT_XRGB8888 4) 64 64 DRM_FORMAT_XRGB8888 4
            (Some [I915_FORMAT_MOD_Y_TILED_CCS, I915_FORMAT_MOD_Y_TILED]) 2))
     \<noteq> I915_FORMAT_MOD_Yf_TILED_CCS \<and>
   meta_format_modifier
     (projr (i915_bo_compute_metadata (example_driver 9 0 False)
            (example_bo DRM_FORMAT_XRGB8888 4) 64 64 DRM_FORMAT_XRGB8888 4
            (Some [I915_FORMAT_MOD_Y_TILED_CCS, I915_FORMAT_MOD_Y_TILED]) 2))
     \<noteq> I915_FORMAT_MOD_Y_TILED_GEN12_RC_CCS \<and>
   meta_format_modifier
     (projr (i915_bo_compute_metadata (example_driver 9 0 False)
            (example_bo DRM_FORMAT_XRGB8888 4) 64 64 DRM_FORMAT_XRGB8888 4
            (Some [I915_FORMAT_MOD_Y_TILED_CCS, I915_FORMAT_MOD_Y_TILED]) 2))
     \<noteq> I915_FORMAT_MOD_4_TILED_MTL_RC_CCS \<and>
   compute_metadata_compression (example_driver 9 0 False)
     (Some [I915_FORMAT_MOD_Y_TILED_CCS, I915_FORMAT_MOD_Y_TILED]) 2 I915_FORMAT_MOD_Y_TILED_CCS
     = I915_FORMAT_MOD_Y_TILED \<and>
   compute_metadata_compression (example_driver 9 0 False)
     (Some [I915_FORMAT_MOD_Y_TILED_CCS, I915_FORMAT_MOD_Y_TILED]) 2 I915_FORMAT_MOD_X_TILED
     = I915_FORMAT_MOD_X_TILED"
proof -
  let ?drv = "example_driver 9 0 False"
  let ?ms = "Some [I915_FORMAT_MOD_Y_TILED_CCS, I915_FORMAT_MOD_Y_TILED]"
  let ?plan = "i915_bo_compute_metadata ?drv
            (example_bo DRM_FORMAT_XRGB8888 4) 64 64 DRM_FORMAT_XRGB8888 4 ?ms 2"
  have a: "\<not> compression ?drv" by (simp add: example_defs)
  have o: "modifiers_ok ?ms 2" by (simp add: modifiers_ok_def)
  have h: "client_has ?ms I915_FORMAT_MOD_Y_TILED" by (simp add: client_has_def)
  have x: "I915_FORMAT_MOD_X_TILED \<noteq> I915_FORMAT_MOD_Y_TILED_CCS" by (simp add: modifier_defs)
  have r: "registry_uncompressed ?drv" by (rule example_registry_uncompressed)
  have k: "picks_from_order ?drv" by (rule example_picks_from_order)
  have g: "order_of_generation ?drv" by (rule example_order_of_generation)
  have v: "graphics_version (priv ?drv) \<noteq> 12" "\<not> i915_has_tile4 (priv ?drv)"
    by (simp_all add: example_defs)
  have p: "?plan = Inr (projr ?plan)"
    by (simp add: plan_defs example_defs format_defs modifier_defs modifier_scan_from.simps)
  have i: "\<not> isl ?plan" by (subst p) simp
  note t = compression_disabled_ccs [OF a, where modifiers = ?ms and count = 2
        and b = "example_bo DRM_FORMAT_XRGB8888 4" and width = 64 and height = 64
        and format = DRM_FORMAT_XRGB8888 and use_flags = 4]
  have 1: "meta_format_modifier (projr ?plan) \<noteq> I915_FORMAT_MOD_Y_TILED_CCS"
    using t [THEN conjunct1, rule_format, OF p] .
  have 2: "compute_metadata_compression ?drv ?ms 2
             I915_FORMAT_MOD_Y_TILED_CCS = I915_FORMAT_MOD_Y_TILED"
    using t [THEN conjunct2, THEN conjunct1, rule_format, OF o] h by simp
  have 3: "compute_metadata_compression ?drv ?ms 2
             I915_FORMAT_MOD_X_TILED = I915_FORMAT_MOD_X_TILED"
    using t [THEN conjunct2, THEN conjunct2, THEN conjunct1, rule_format, OF x] .
  note w = t [THEN conjunct2, THEN conjunct2, THEN conjunct2, rule_format,
              OF conjI [OF r conjI [OF k g]] p]
  have 4: "meta_format_modifier (projr ?plan) \<noteq> I915_FORMAT_MOD_Yf_TILED_CCS"
    using w by (rule conjunct1)
  have 5: "meta_format_modifier (projr ?plan) \<noteq> I915_FORMAT_MOD_Y_TILED_GEN12_RC_CCS"
    using w [THEN conjunct2, THEN conjunct1] v(1) by blast
  have 6: "meta_format_modifier (projr ?plan) \<noteq> I915_FORMAT_MOD_4_TILED_MTL_RC_CCS"
    using w [THEN conjunct2, THEN conjunct2] v(2) by blast
  show ?thesis
    by (intro conjI a o r k g i 1 4 5 6 2 3)
qed

text \<open>
  With compression disabled, on generation 12 a client list that holds
  \<open>Y_TILED_GEN12_RC_CCS\<close> gets a plan with that modifier, and on generation 12.5 a
  client list that holds \<open>4_TILED_MTL_RC_CCS\<close> gets a plan with that one.
\<close>

theorem compression_disabled_rc_ccs_counterexample:
  "\<not> compression (example_driver 12 0 False) \<and>
   \<not> isl (i915_bo_compute_metadata (example_driver 12 0 False)
            (example_bo DRM_FORMAT_XRGB8888 4) 64 64 DRM_FORMAT_XRGB8888 4
            (Some [I915_FORMAT_MOD_Y_TILED_GEN12_RC_CCS]) 1) \<and>
   meta_format_modifier
     (projr (i915_bo_compute_metadata (example_driver 12 0 False)
            (example_bo DRM_FORMAT_XRGB8888 4) 64 64 DRM_FORMAT_XRGB8888 4
            (Some [I915_FORMAT_MOD_Y_TILED_GEN12_RC_CCS]) 1))
     = I915_FORMAT_MOD_Y_TILED_GEN12_RC_CCS \<and>
   \<not> compression (example_driver 12 5 False) \<and>
   \<not> isl (i915_bo_compute_metadata (example_driver 12 5 False)
            (example_bo DRM_FORMAT_XRGB8888 4) 64 64 DRM_FORMAT_XRGB8888 4
            (Some [I915_FORMAT_MOD_4_TILED_MTL_RC_CCS]) 1) \<and>
   meta_format_modifier
     (projr (i915_bo_compute_metadata (example_driver 12 5 False)
            (example_bo DRM_FORMAT_XRGB8888 4) 64 64 DRM_FORMAT_XRGB8888 4
            (Some [I915_FORMAT_MOD_4_TILED_MTL_RC_CCS]) 1))
     = I915_FORMAT_MOD_4_TILED_MTL_RC_CCS"
  by (simp add: plan_defs example_defs format_defs modifier_defs)

section \<open>Linear R8 buffers\<close>

text \<open>
  C4, as the code has it. In a linear plan of the single-plane format R8 the stride of
  plane 0 is the default stride of the format, never aligned, and \<open>sizes[0]\<close> is that
  stride times the height: times 1 when the default plane height is 1, times the height
  aligned to 4 otherwise. With one byte per pixel the stride is the width itself, so the
  size is \<open>width * 1\<close> or \<open>width * align(height, 4)\<close>.
\<close>

theorem linear_r8_plane_size:
  assumes "i915_bo_compute_metadata drv b width height DRM_FORMAT_R8 use_flags modifiers count
             = Inr b'"
      and "meta_tiling b' = I915_TILING_NONE"
      and "meta_format b = DRM_FORMAT_R8"
      and "drv_num_planes_from_format drv DRM_FORMAT_R8 = 1"
  shows "meta_strides b' 0 = drv_stride_from_format drv DRM_FORMAT_R8 width 0 \<and>
         meta_sizes b' 0 =
           drv_stride_from_format drv DRM_FORMAT_R8 width 0 *
           (if drv_height_from_format drv DRM_FORMAT_R8 height 0 = 1 then 1
            else ALIGN (drv_height_from_format drv DRM_FORMAT_R8 height 0) 4)"
proof -
  obtain m where m: "compute_metadata_modifier drv width DRM_FORMAT_R8 use_flags modifiers count
                       = Inr m"
    and l: "compute_metadata_layout drv
              (b\<lparr>meta_tiling := compute_metadata_tiling (meta_tiling b) m,
                 meta_format_modifier := m\<rparr>) width height DRM_FORMAT_R8 m = Inr b'"
    using assms(1) by (auto simp: i915_bo_compute_metadata_def split: sum.splits)
  let ?b1 = "b\<lparr>meta_tiling := compute_metadata_tiling (meta_tiling b) m,
                 meta_format_modifier := m\<rparr>"
  have t: "meta_tiling ?b1 = I915_TILING_NONE"
    using layout_preserves [OF l] assms(2) by simp
  have f: "i915_bo_from_format drv ?b1 width height DRM_FORMAT_R8 = Inr b'"
    by (rule layout_plain [OF l _ _ , where old = "meta_tiling b"])
       (use t in \<open>simp_all add: format_defs\<close>)
  have one: "(0::nat) < drv_num_planes_from_format drv DRM_FORMAT_R8"
            "\<not> Suc 0 < drv_num_planes_from_format drv DRM_FORMAT_R8"
    using assms(4) by simp_all
  have a1: "ALIGN x (1 :: u32) = x" for x by (simp add: ALIGN_def)
  have lp: "i915_bo_from_format_loop drv width height DRM_FORMAT_R8 0 0 ?b1 =
        Inr (plane_size drv ?b1 width height DRM_FORMAT_R8 0,
             ?b1\<lparr>meta_strides := (meta_strides ?b1)
                    (0 := plane_stride drv ?b1 width height DRM_FORMAT_R8 0),
                 meta_sizes := (meta_sizes ?b1)
                    (0 := plane_size drv ?b1 width height DRM_FORMAT_R8 0),
                 meta_offsets := (meta_offsets ?b1)(0 := 0)\<rparr>)"
    using t by (simp add: loop_step [OF one(1)] loop_done [OF one(2)])
  have b': "meta_strides b' 0 = plane_stride drv ?b1 width height DRM_FORMAT_R8 0"
           "meta_sizes b' 0 = plane_size drv ?b1 width height DRM_FORMAT_R8 0"
    using f by (auto simp: i915_bo_from_format_def lp)
  have lcu: "\<not> i915_format_needs_LCU_alignment DRM_FORMAT_R8 0 (priv drv)"
    by (simp add: i915_format_needs_LCU_alignment_def format_defs)
  show ?thesis
    unfolding b'
    using t assms(3) lcu
    by (simp add: plane_size_def plane_stride_def plane_height_def i915_align_dimensions_def
          Let_def a1 split: prod.splits)
qed

theorem linear_r8_plane_size_witness:
  "meta_tiling (projr (i915_bo_compute_metadata (example_driver 12 0 True)
       (example_bo DRM_FORMAT_R8 16) 1024 2 DRM_FORMAT_R8 16 None 0)) = I915_TILING_NONE \<and>
   drv_num_planes_from_format (example_driver 12 0 True) DRM_FORMAT_R8 = 1 \<and>
   meta_strides (projr (i915_bo_compute_metadata (example_driver 12 0 True)
       (example_bo DRM_FORMAT_R8 16) 1024 2 DRM_FORMAT_R8 16 None 0)) 0 = 1024 \<and>
   meta_sizes (projr (i915_bo_compute_metadata (example_driver 12 0 True)
       (example_bo DRM_FORMAT_R8 16) 1024 2 DRM_FORMAT_R8 16 None 0)) 0 = 4096"
proof -
  let ?drv = "example_driver 12 0 True"
  let ?plan = "i915_bo_compute_metadata ?drv (example_bo DRM_FORMAT_R8 16) 1024 2
                 DRM_FORMAT_R8 16 None 0"
  have p: "?plan = Inr (projr ?plan)"
    by (simp add: plan_defs example_defs format_defs modifier_defs)
  have t: "meta_tiling (projr ?plan) = I915_TILING_NONE"
    by (simp add: plan_defs example_defs format_defs modifier_defs)
  have f: "meta_format (example_bo DRM_FORMAT_R8 16) = DRM_FORMAT_R8"
    by (simp add: example_bo_def)
  have n: "drv_num_planes_from_format ?drv DRM_FORMAT_R8 = 1"
    by (simp add: example_defs format_defs)
  show ?thesis
    using t n linear_r8_plane_size [OF p t f n]
    by (simp add: example_defs format_defs ALIGN_def)
qed

text \<open>
  A linear R8 buffer of 100 by 1 gets \<open>sizes[0] = 100\<close>, where the width aligned to 64
  would give 128.
\<close>

theorem linear_r8_stride_counterexample:
  "meta_tiling (projr (i915_bo_compute_metadata (example_driver 12 0 True)
       (example_bo DRM_FORMAT_R8 16) 100 1 DRM_FORMAT_R8 16 None 0)) = I915_TILING_NONE \<and>
   \<not> isl (i915_bo_compute_metadata (example_driver 12 0 True)
       (example_bo DRM_FORMAT_R8 16) 100 1 DRM_FORMAT_R8 16 None 0) \<and>
   meta_sizes (projr (i915_bo_compute_metadata (example_driver 12 0 True)
       (example_bo DRM_FORMAT_R8 16) 100 1 DRM_FORMAT_R8 16 None 0)) 0 = 100 \<and>
   ALIGN (100 :: u32) 64 * 1 = 128"
  by (simp add: plan_defs example_defs format_defs modifier_defs)

section \<open>Selection from a client list\<close>

text \<open>
  C5, as the code has it. With a client list, the first step takes the modifier that
  \<open>drv_pick_modifier\<close> returns: on a host whose helper does what the spec says, the
  highest-ranked modifier of the generation list that the client list has. The planner
  returns it unless one of the three overrides replaces it. Planning with a client
  list never fails with the invalid-argument condition, also when the two lists have
  nothing in common: the planner goes on with the modifier the helper returned, and
  apart from the Android YVU420 format, whose layout is the host's, it can only stop at
  an assertion or at the undefined shift.
\<close>

theorem client_list_selection:
  assumes "picks_highest_ranked drv"
  shows "(\<forall>m. highest_ranked_common (modifier_order (priv drv)) ms = Some m \<longrightarrow>
            compute_metadata_select drv format use_flags (Some ms) (length ms) = Inr m \<and>
            (\<not> (graphics_version (priv drv) < 11 \<and> width > 4096 \<and>
                 format \<noteq> DRM_FORMAT_NV12 \<and> format \<noteq> DRM_FORMAT_P010 \<and>
                 m \<noteq> I915_FORMAT_MOD_X_TILED \<and> m \<noteq> DRM_FORMAT_MOD_LINEAR) \<and>
             \<not> (\<not> compression drv \<and> m = I915_FORMAT_MOD_Y_TILED_CCS) \<and>
             \<not> (graphics_version (priv drv) \<le> 8 \<and> format = DRM_FORMAT_ARGB8888) \<longrightarrow>
             compute_metadata_modifier drv width format use_flags (Some ms) (length ms)
               = Inr m \<and>
             (\<forall>b'. i915_bo_compute_metadata drv b width height format use_flags (Some ms)
                     (length ms) = Inr b' \<longrightarrow> meta_format_modifier b' = m))) \<and>
         compute_metadata_select drv format use_flags (Some ms) (length ms) =
           Inr (drv_pick_modifier drv ms (length ms) (modifier_order (priv drv))) \<and>
         (format \<noteq> DRM_FORMAT_YVU420_ANDROID \<longrightarrow>
            (\<forall>e. i915_bo_compute_metadata drv b width height format use_flags (Some ms)
                    (length ms) = Inl e \<longrightarrow>
                 e = ASSERT_FAILED \<or> e = UNDEFINED_SHIFT))"
proof -
  have s: "compute_metadata_select drv format use_flags (Some ms) (length ms) =
           Inr (drv_pick_modifier drv ms (length ms) (modifier_order (priv drv)))"
    by (simp add: compute_metadata_select_def)
  have p: "highest_ranked_common (modifier_order (priv drv)) ms = Some m \<Longrightarrow>
           drv_pick_modifier drv ms (length ms) (modifier_order (priv drv)) = m" for m
    using assms by (simp add: picks_highest_ranked_def)
  have e: "format \<noteq> DRM_FORMAT_YVU420_ANDROID \<Longrightarrow>
           i915_bo_compute_metadata drv b width height format use_flags (Some ms) (length ms)
             = Inl e \<Longrightarrow> e = ASSERT_FAILED \<or> e = UNDEFINED_SHIFT" for e
    using s
    by (auto simp: i915_bo_compute_metadata_def compute_metadata_modifier_def
             split: sum.splits dest: layout_error)
  have f: "compute_metadata_modifier drv width format use_flags (Some ms) (length ms) = Inr m
           \<Longrightarrow> i915_bo_compute_metadata drv b width height format use_flags (Some ms)
                 (length ms) = Inr b' \<Longrightarrow> meta_format_modifier b' = m" for m b'
    by (auto dest!: plan_modifier)
  have o: "compute_metadata_modifier drv width format use_flags (Some ms) (length ms) = Inr m"
    if "highest_ranked_common (modifier_order (priv drv)) ms = Some m"
       "\<not> (graphics_version (priv drv) < 11 \<and> width > 4096 \<and>
                 format \<noteq> DRM_FORMAT_NV12 \<and> format \<noteq> DRM_FORMAT_P010 \<and>
                 m \<noteq> I915_FORMAT_MOD_X_TILED \<and> m \<noteq> DRM_FORMAT_MOD_LINEAR) \<and>
             \<not> (\<not> compression drv \<and> m = I915_FORMAT_MOD_Y_TILED_CCS) \<and>
             \<not> (graphics_version (priv drv) \<le> 8 \<and> format = DRM_FORMAT_ARGB8888)" for m
    using s p [OF that(1)] that(2)
    by (auto simp: compute_metadata_modifier_def compute_metadata_huge_bo_def
          compute_metadata_compression_def compute_metadata_gen8_def Let_def)
  have first: "\<forall>m. highest_ranked_common (modifier_order (priv drv)) ms = Some m \<longrightarrow>
            compute_metadata_select drv format use_flags (Some ms) (length ms) = Inr m \<and>
            (\<not> (graphics_version (priv drv) < 11 \<and> width > 4096 \<and>
                 format \<noteq> DRM_FORMAT_NV12 \<and> format \<noteq> DRM_FORMAT_P010 \<and>
                 m \<noteq> I915_FORMAT_MOD_X_TILED \<and> m \<noteq> DRM_FORMAT_MOD_LINEAR) \<and>
             \<not> (\<not> compression drv \<and> m = I915_FORMAT_MOD_Y_TILED_CCS) \<and>
             \<not> (graphics_version (priv drv) \<le> 8 \<and> format = DRM_FORMAT_ARGB8888) \<longrightarrow>
             compute_metadata_modifier drv width format use_flags (Some ms) (length ms)
               = Inr m \<and>
             (\<forall>b'. i915_bo_compute_metadata drv b width height format use_flags (Some ms)
                     (length ms) = Inr b' \<longrightarrow> meta_format_modifier b' = m))"
  proof (intro allI impI conjI)
    fix m
    assume h: "highest_ranked_common (modifier_order (priv drv)) ms = Some m"
    show "compute_metadata_select drv format use_flags (Some ms) (length ms) = Inr m"
      using s p [OF h] by simp
  next
    fix m
    assume h: "highest_ranked_common (modifier_order (priv drv)) ms = Some m"
      and n: "\<not> (graphics_version (priv drv) < 11 \<and> width > 4096 \<and>
                 format \<noteq> DRM_FORMAT_NV12 \<and> format \<noteq> DRM_FORMAT_P010 \<and>
                 m \<noteq> I915_FORMAT_MOD_X_TILED \<and> m \<noteq> DRM_FORMAT_MOD_LINEAR) \<and>
             \<not> (\<not> compression drv \<and> m = I915_FORMAT_MOD_Y_TILED_CCS) \<and>
             \<not> (graphics_version (priv drv) \<le> 8 \<and> format = DRM_FORMAT_ARGB8888)"
    show "compute_metadata_modifier drv width format use_flags (Some ms) (length ms) = Inr m"
      by (rule o [OF h n])
  next
    fix m b'
    assume h: "highest_ranked_common (modifier_order (priv drv)) ms = Some m"
      and n: "\<not> (graphics_version (priv drv) < 11 \<and> width > 4096 \<and>
                 format \<noteq> DRM_FORMAT_NV12 \<and> format \<noteq> DRM_FORMAT_P010 \<and>
                 m \<noteq> I915_FORMAT_MOD_X_TILED \<and> m \<noteq> DRM_FORMAT_MOD_LINEAR) \<and>
             \<not> (\<not> compression drv \<and> m = I915_FORMAT_MOD_Y_TILED_CCS) \<and>
             \<not> (graphics_version (priv drv) \<le> 8 \<and> format = DRM_FORMAT_ARGB8888)"
      and r: "i915_bo_compute_metadata drv b width height format use_flags (Some ms)
                     (length ms) = Inr b'"
    show "meta_format_modifier b' = m"
      by (rule f [OF o [OF h n] r])
  qed
  have last: "format \<noteq> DRM_FORMAT_YVU420_ANDROID \<longrightarrow>
            (\<forall>e. i915_bo_compute_metadata drv b width height format use_flags (Some ms)
                    (length ms) = Inl e \<longrightarrow>
                 e = ASSERT_FAILED \<or> e = UNDEFINED_SHIFT)"
    using e by blast
  show ?thesis
    by (intro conjI first s last)
qed

theorem client_list_selection_witness:
  "picks_highest_ranked (example_driver 12 0 True) \<and>
   highest_ranked_common (modifier_order (priv (example_driver 12 0 True)))
     [I915_FORMAT_MOD_X_TILED, I915_FORMAT_MOD_Y_TILED, I915_FORMAT_MOD_4_TILED]
     = Some I915_FORMAT_MOD_Y_TILED \<and>
   compute_metadata_modifier (example_driver 12 0 True) 64 DRM_FORMAT_XRGB8888 4
     (Some [I915_FORMAT_MOD_X_TILED, I915_FORMAT_MOD_Y_TILED, I915_FORMAT_MOD_4_TILED]) 3
     = Inr I915_FORMAT_MOD_Y_TILED \<and>
   \<not> isl (i915_bo_compute_metadata (example_driver 12 0 True)
     (example_bo DRM_FORMAT_XRGB8888 4) 64 64 DRM_FORMAT_XRGB8888 4
     (Some [I915_FORMAT_MOD_X_TILED, I915_FORMAT_MOD_Y_TILED, I915_FORMAT_MOD_4_TILED]) 3) \<and>
   meta_format_modifier (projr (i915_bo_compute_metadata (example_driver 12 0 True)
     (example_bo DRM_FORMAT_XRGB8888 4) 64 64 DRM_FORMAT_XRGB8888 4
     (Some [I915_FORMAT_MOD_X_TILED, I915_FORMAT_MOD_Y_TILED, I915_FORMAT_MOD_4_TILED]) 3))
     = I915_FORMAT_MOD_Y_TILED"
proof -
  let ?drv = "example_driver 12 0 True"
  let ?ms = "[I915_FORMAT_MOD_X_TILED, I915_FORMAT_MOD_Y_TILED, I915_FORMAT_MOD_4_TILED]"
  have h: "highest_ranked_common (modifier_order (priv ?drv)) ?ms = Some I915_FORMAT_MOD_Y_TILED"
    by (simp add: example_defs modifier_defs)
  have g: "\<not> (graphics_version (priv ?drv) < 11)" "\<not> (graphics_version (priv ?drv) \<le> 8)"
    "I915_FORMAT_MOD_Y_TILED \<noteq> I915_FORMAT_MOD_Y_TILED_CCS"
    by (simp_all add: example_defs modifier_defs)
  let ?plan = "i915_bo_compute_metadata ?drv (example_bo DRM_FORMAT_XRGB8888 4) 64 64
                 DRM_FORMAT_XRGB8888 4 (Some ?ms) (length ?ms)"
  have p: "?plan = Inr (projr ?plan)"
    by (simp add: plan_defs example_defs format_defs modifier_defs)
  have i: "\<not> isl ?plan" by (subst p) simp
  note t = client_list_selection [OF example_picks_highest_ranked [of 12 0 True],
        where ms = ?ms and width = 64 and format = DRM_FORMAT_XRGB8888 and use_flags = 4
          and b = "example_bo DRM_FORMAT_XRGB8888 4" and height = 64]
  note u = t [THEN conjunct1, rule_format, OF h, THEN conjunct2, rule_format]
  have n: "\<not> (graphics_version (priv ?drv) < 11 \<and> (64 :: u32) > 4096 \<and>
                 DRM_FORMAT_XRGB8888 \<noteq> DRM_FORMAT_NV12 \<and>
                 DRM_FORMAT_XRGB8888 \<noteq> DRM_FORMAT_P010 \<and>
                 I915_FORMAT_MOD_Y_TILED \<noteq> I915_FORMAT_MOD_X_TILED \<and>
                 I915_FORMAT_MOD_Y_TILED \<noteq> DRM_FORMAT_MOD_LINEAR) \<and>
             \<not> (\<not> compression ?drv \<and> I915_FORMAT_MOD_Y_TILED = I915_FORMAT_MOD_Y_TILED_CCS) \<and>
             \<not> (graphics_version (priv ?drv) \<le> 8 \<and>
                DRM_FORMAT_XRGB8888 = DRM_FORMAT_ARGB8888)"
    using g by simp
  have 1: "compute_metadata_modifier ?drv 64 DRM_FORMAT_XRGB8888 4 (Some ?ms) (length ?ms)
             = Inr I915_FORMAT_MOD_Y_TILED"
    using u [OF n] by (rule conjunct1)
  have 2: "meta_format_modifier (projr ?plan) = I915_FORMAT_MOD_Y_TILED"
    using u [OF n, THEN conjunct2, rule_format, OF p] .
  show ?thesis
    using h 1 2 i example_picks_highest_ranked [of 12 0 True]
    by (simp add: numeral_3_eq_3)
qed

text \<open>
  On generation 9 the client list with the single modifier \<open>4_TILED\<close> shares nothing
  with the generation list, and the XRGB8888 plan of 64 by 64 succeeds.
\<close>

theorem client_list_disjoint_counterexample:
  "set [I915_FORMAT_MOD_4_TILED] \<inter> set (modifier_order (priv (example_driver 9 0 True))) = {} \<and>
   \<not> isl (i915_bo_compute_metadata (example_driver 9 0 True)
            (example_bo DRM_FORMAT_XRGB8888 4) 64 64 DRM_FORMAT_XRGB8888 4
            (Some [I915_FORMAT_MOD_4_TILED]) 1) \<and>
   i915_bo_compute_metadata (example_driver 9 0 True)
            (example_bo DRM_FORMAT_XRGB8888 4) 64 64 DRM_FORMAT_XRGB8888 4
            (Some [I915_FORMAT_MOD_4_TILED]) 1 \<noteq> Inl EINVAL"
  by (simp add: plan_defs example_defs format_defs modifier_defs)

section \<open>Mapping compressed buffers\<close>

text \<open>
  C6, as the code has it. For a buffer whose modifier is \<open>Y_TILED_CCS\<close>,
  \<open>Y_TILED_GEN12_RC_CCS\<close> or \<open>4_TILED_MTL_RC_CCS\<close>, \<open>i915_bo_map\<close> returns \<open>MAP_FAILED\<close>
  without a single transaction and leaves \<open>vma->length\<close> alone. \<open>Yf_TILED_CCS\<close> is not
  among the modifiers it refuses.
\<close>

theorem map_refuses_compressed:
  assumes "meta_format_modifier b = I915_FORMAT_MOD_Y_TILED_CCS \<or>
           meta_format_modifier b = I915_FORMAT_MOD_Y_TILED_GEN12_RC_CCS \<or>
           meta_format_modifier b = I915_FORMAT_MOD_4_TILED_MTL_RC_CCS"
  shows "i915_bo_map drv k b vma_length map_flags = ((MAP_FAILED, vma_length), [])"
  using assms by (auto simp: i915_bo_map_def Let_def)

theorem map_refuses_compressed_witness:
  "i915_bo_map (example_driver 12 0 True) example_kernel
     ((example_bo DRM_FORMAT_XRGB8888 1)
        \<lparr>meta_format_modifier := I915_FORMAT_MOD_Y_TILED_GEN12_RC_CCS, meta_total_size := 69632\<rparr>)
     0 3 = ((MAP_FAILED, 0), [])"
  using map_refuses_compressed [of "(example_bo DRM_FORMAT_XRGB8888 1)
        \<lparr>meta_format_modifier := I915_FORMAT_MOD_Y_TILED_GEN12_RC_CCS, meta_total_size := 69632\<rparr>"
        "example_driver 12 0 True" example_kernel 0 3]
  by simp

text \<open>
  A buffer with the modifier \<open>Yf_TILED_CCS\<close> on a device with mmap-offset support: the
  map operation asks the kernel for an offset, maps it and returns the address.
\<close>

theorem map_yf_tiled_ccs_counterexample:
  "i915_bo_map (example_driver 9 0 True) example_kernel
     ((example_bo DRM_FORMAT_XRGB8888 1)
        \<lparr>meta_tiling := I915_TILING_Y,
         meta_format_modifier := I915_FORMAT_MOD_Yf_TILED_CCS, meta_total_size := 16384\<rparr>)
     0 3 =
   ((0x10000, 16384), [GEM_MMAP_OFFSET 0 I915_MMAP_OFFSET_WC, MMAP 16384 PROT_READ_WRITE 0x10000]) \<and>
   (0x10000 :: u64) \<noteq> MAP_FAILED"
  by (simp add: i915_bo_map_def map_wants_wc_def map_finish_def MAP_FAILED_def
        example_defs modifier_defs)

section \<open>Total size and plane offsets\<close>

text \<open>
  C7, as the code has it. With 4 KiB pages, for every successful plan of a format other
  than the Android YVU420 format (whose layout is the host helper's), on a buffer that
  carries the default plane count of its format: \<open>total_size\<close> is a multiple of the
  page size; it is at least the sum of the plane sizes provided that sum stays at least
  a page below \<open>2^32\<close>, so that the 32-bit arithmetic does not wrap; and when the tiling
  is not linear every plane offset is a multiple of the page size.
\<close>

theorem plan_total_size:
  assumes "i915_bo_compute_metadata drv b width height format use_flags modifiers count = Inr b'"
      and "format \<noteq> DRM_FORMAT_YVU420_ANDROID"
      and "pagesize drv = 4096"
      and "meta_num_planes b = drv_num_planes_from_format drv format"
  shows "4096 dvd unat (meta_total_size b') \<and>
         ((\<Sum>p<meta_num_planes b'. unat (meta_sizes b' p)) + 4095 < 2 ^ 32 \<longrightarrow>
          (\<Sum>p<meta_num_planes b'. unat (meta_sizes b' p)) \<le> unat (meta_total_size b')) \<and>
         (meta_tiling b' \<noteq> I915_TILING_NONE \<longrightarrow>
            (\<forall>p<meta_num_planes b'. 4096 dvd unat (meta_offsets b' p)))"
proof (cases "meta_format_modifier b' = I915_FORMAT_MOD_Y_TILED_CCS \<or>
           meta_format_modifier b' = I915_FORMAT_MOD_Y_TILED_GEN12_RC_CCS \<or>
           meta_format_modifier b' = I915_FORMAT_MOD_4_TILED_MTL_RC_CCS")
  case True
  note c = compressed_layout [OF plan_layout [OF assms(1)] assms(2) True]
  have "4096 dvd unat (meta_total_size b') \<and>
         ((\<Sum>p<meta_num_planes b'. unat (meta_sizes b' p)) + 4095 < 2 ^ 32 \<longrightarrow>
          (\<Sum>p<meta_num_planes b'. unat (meta_sizes b' p)) \<le> unat (meta_total_size b')) \<and>
         (\<forall>p<meta_num_planes b'. 4096 dvd unat (meta_offsets b' p))"
    by (rule two_plane_layout [where ?size0.0 = "meta_sizes b' 0" and ?size1.0 = "meta_sizes b' 1"])
       (use c assms(3) in simp_all)
  then show ?thesis by simp
next
  case False
  let ?b1 = "b\<lparr>meta_tiling := compute_metadata_tiling (meta_tiling b) (meta_format_modifier b'),
              meta_format_modifier := meta_format_modifier b'\<rparr>"
  have f: "i915_bo_from_format drv ?b1 width height format = Inr b'"
    by (rule layout_plain [OF plan_layout [OF assms(1)] assms(2), where old = "meta_tiling b"])
       (use False in simp_all)
  show ?thesis
    by (rule plain_layout [OF f assms(3)]) (simp add: assms(4))
qed

theorem plan_total_size_witness:
  "pagesize (example_driver 12 0 True) = 4096 \<and>
   meta_num_planes (example_bo DRM_FORMAT_NV12 16) =
     drv_num_planes_from_format (example_driver 12 0 True) DRM_FORMAT_NV12 \<and>
   \<not> isl (i915_bo_compute_metadata (example_driver 12 0 True) (example_bo DRM_FORMAT_NV12 16)
            1920 1088 DRM_FORMAT_NV12 16 (Some [I915_FORMAT_MOD_Y_TILED]) 1) \<and>
   meta_tiling (projr (i915_bo_compute_metadata (example_driver 12 0 True)
     (example_bo DRM_FORMAT_NV12 16) 1920 1088 DRM_FORMAT_NV12 16
     (Some [I915_FORMAT_MOD_Y_TILED]) 1)) = I915_TILING_Y \<and>
   meta_offsets (projr (i915_bo_compute_metadata (example_driver 12 0 True)
     (example_bo DRM_FORMAT_NV12 16) 1920 1088 DRM_FORMAT_NV12 16
     (Some [I915_FORMAT_MOD_Y_TILED]) 1)) 1 = 2088960 \<and>
   meta_sizes (projr (i915_bo_compute_metadata (example_driver 12 0 True)
     (example_bo DRM_FORMAT_NV12 16) 1920 1088 DRM_FORMAT_NV12 16
     (Some [I915_FORMAT_MOD_Y_TILED]) 1)) 1 = 1105920 \<and>
   meta_total_size (projr (i915_bo_compute_metadata (example_driver 12 0 True)
     (example_bo DRM_FORMAT_NV12 16) 1920 1088 DRM_FORMAT_NV12 16
     (Some [I915_FORMAT_MOD_Y_TILED]) 1)) = 3194880 \<and>
   (4096 :: nat) dvd 3194880 \<and> (4096 :: nat) dvd 2088960"
proof -
  let ?drv = "example_driver 12 0 True"
  let ?plan = "i915_bo_compute_metadata ?drv (example_bo DRM_FORMAT_NV12 16) 1920 1088
                 DRM_FORMAT_NV12 16 (Some [I915_FORMAT_MOD_Y_TILED]) 1"
  have p: "?plan = Inr (projr ?plan)"
    by (simp add: plan_defs example_defs format_defs modifier_defs)
  have f: "DRM_FORMAT_NV12 \<noteq> DRM_FORMAT_YVU420_ANDROID" by (simp add: format_defs)
  have g: "pagesize ?drv = 4096" by (simp add: example_defs)
  have n: "meta_num_planes (example_bo DRM_FORMAT_NV12 16) =
             drv_num_planes_from_format ?drv DRM_FORMAT_NV12"
    by (simp add: example_defs)
  have v: "meta_tiling (projr ?plan) = I915_TILING_Y"
          "meta_num_planes (projr ?plan) = 2"
          "meta_offsets (projr ?plan) 0 = 0"
          "meta_offsets (projr ?plan) 1 = 2088960"
          "meta_sizes (projr ?plan) 0 = 2088960"
          "meta_sizes (projr ?plan) 1 = 1105920"
          "meta_total_size (projr ?plan) = 3194880"
    by (simp_all add: plan_defs example_defs format_defs modifier_defs)
  have i: "\<not> isl ?plan" by (subst p) simp
  show ?thesis
    using i g n v plan_total_size [OF p f g n] by simp
qed

text \<open>
  A linear R8 buffer of width \<open>2^32 - 1\<close> and height 1: the plane has that size, and
  the total, aligned in 32 bits, is 0.
\<close>

theorem plan_total_size_overflow_counterexample:
  "\<not> isl (i915_bo_compute_metadata (example_driver 12 0 True) (example_bo DRM_FORMAT_R8 16)
            4294967295 1 DRM_FORMAT_R8 16 None 0) \<and>
   meta_num_planes (projr (i915_bo_compute_metadata (example_driver 12 0 True)
     (example_bo DRM_FORMAT_R8 16) 4294967295 1 DRM_FORMAT_R8 16 None 0)) = 1 \<and>
   meta_sizes (projr (i915_bo_compute_metadata (example_driver 12 0 True)
     (example_bo DRM_FORMAT_R8 16) 4294967295 1 DRM_FORMAT_R8 16 None 0)) 0 = 4294967295 \<and>
   meta_total_size (projr (i915_bo_compute_metadata (example_driver 12 0 True)
     (example_bo DRM_FORMAT_R8 16) 4294967295 1 DRM_FORMAT_R8 16 None 0)) = 0"
  by (simp add: plan_defs example_defs format_defs modifier_defs)

section \<open>Compressed plans\<close>

text \<open>
  C8, as the code has it. For every successful plan of a format other than the Android
  YVU420 format whose modifier is \<open>Y_TILED_CCS\<close>, \<open>Y_TILED_GEN12_RC_CCS\<close> or
  \<open>4_TILED_MTL_RC_CCS\<close>, the plane count is 2, \<open>offsets[1]\<close> equals \<open>sizes[0]\<close>, and
  \<open>offsets[1]\<close> is a multiple of 4096. The Android YVU420 format is laid out by the host
  helper before the modifier is looked at.
\<close>

theorem ccs_plan_has_two_planes:
  assumes "i915_bo_compute_metadata drv b width height format use_flags modifiers count = Inr b'"
      and "format \<noteq> DRM_FORMAT_YVU420_ANDROID"
      and "meta_format_modifier b' = I915_FORMAT_MOD_Y_TILED_CCS \<or>
           meta_format_modifier b' = I915_FORMAT_MOD_Y_TILED_GEN12_RC_CCS \<or>
           meta_format_modifier b' = I915_FORMAT_MOD_4_TILED_MTL_RC_CCS"
  shows "meta_num_planes b' = 2 \<and> meta_offsets b' 1 = meta_sizes b' 0 \<and>
         4096 dvd unat (meta_offsets b' 1)"
  using compressed_layout [OF plan_layout [OF assms(1)] assms(2,3)] by simp

theorem ccs_plan_has_two_planes_witness:
  "\<not> isl (i915_bo_compute_metadata (example_driver 9 0 True) (example_bo DRM_FORMAT_XRGB8888 4)
            64 64 DRM_FORMAT_XRGB8888 4 (Some [I915_FORMAT_MOD_Y_TILED_CCS]) 1) \<and>
   meta_format_modifier
     (projr (i915_bo_compute_metadata (example_driver 9 0 True)
        (example_bo DRM_FORMAT_XRGB8888 4) 64 64 DRM_FORMAT_XRGB8888 4
        (Some [I915_FORMAT_MOD_Y_TILED_CCS]) 1)) = I915_FORMAT_MOD_Y_TILED_CCS \<and>
   meta_num_planes
     (projr (i915_bo_compute_metadata (example_driver 9 0 True)
        (example_bo DRM_FORMAT_XRGB8888 4) 64 64 DRM_FORMAT_XRGB8888 4
        (Some [I915_FORMAT_MOD_Y_TILED_CCS]) 1)) = 2 \<and>
   meta_offsets
     (projr (i915_bo_compute_metadata (example_driver 9 0 True)
        (example_bo DRM_FORMAT_XRGB8888 4) 64 64 DRM_FORMAT_XRGB8888 4
        (Some [I915_FORMAT_MOD_Y_TILED_CCS]) 1)) 1 = 16384"
proof -
  let ?plan = "i915_bo_compute_metadata (example_driver 9 0 True)
        (example_bo DRM_FORMAT_XRGB8888 4) 64 64 DRM_FORMAT_XRGB8888 4
        (Some [I915_FORMAT_MOD_Y_TILED_CCS]) 1"
  have p: "?plan = Inr (projr ?plan)"
    by (simp add: plan_defs example_defs format_defs modifier_defs)
  have f: "DRM_FORMAT_XRGB8888 \<noteq> DRM_FORMAT_YVU420_ANDROID" by (simp add: format_defs)
  have m: "meta_format_modifier (projr ?plan) = I915_FORMAT_MOD_Y_TILED_CCS"
    by (simp add: plan_defs example_defs format_defs modifier_defs)
  have s: "meta_sizes (projr ?plan) 0 = 16384"
    by (simp add: plan_defs example_defs format_defs modifier_defs)
  have d: "meta_format_modifier (projr ?plan) = I915_FORMAT_MOD_Y_TILED_CCS \<or>
           meta_format_modifier (projr ?plan) = I915_FORMAT_MOD_Y_TILED_GEN12_RC_CCS \<or>
           meta_format_modifier (projr ?plan) = I915_FORMAT_MOD_4_TILED_MTL_RC_CCS"
    using m by simp
  have i: "\<not> isl ?plan" by (subst p) simp
  show ?thesis
    using i m s ccs_plan_has_two_planes [OF p f d] by simp
qed

text \<open>
  On generation 9 with compression enabled, the client list with \<open>Y_TILED_CCS\<close> alone
  gives an Android YVU420 buffer of 640 by 480 that modifier, and the plan keeps the
  three planes of the format.
\<close>

theorem ccs_plan_android_yvu_counterexample:
  "\<not> isl (i915_bo_compute_metadata (example_driver 9 0 True)
            (example_bo DRM_FORMAT_YVU420_ANDROID 16) 640 480 DRM_FORMAT_YVU420_ANDROID 16
            (Some [I915_FORMAT_MOD_Y_TILED_CCS]) 1) \<and>
   meta_format_modifier
     (projr (i915_bo_compute_metadata (example_driver 9 0 True)
        (example_bo DRM_FORMAT_YVU420_ANDROID 16) 640 480 DRM_FORMAT_YVU420_ANDROID 16
        (Some [I915_FORMAT_MOD_Y_TILED_CCS]) 1)) = I915_FORMAT_MOD_Y_TILED_CCS \<and>
   meta_num_planes
     (projr (i915_bo_compute_metadata (example_driver 9 0 True)
        (example_bo DRM_FORMAT_YVU420_ANDROID 16) 640 480 DRM_FORMAT_YVU420_ANDROID 16
        (Some [I915_FORMAT_MOD_Y_TILED_CCS]) 1)) = 3"
  by (simp add: plan_defs example_defs format_defs modifier_defs)

section \<open>The allocator: system memory\<close>

lemma create_request_system:
  assumes "meta_use_flags b AND BO_USE_SW_READ_RARELY drv \<noteq> 0 \<or>
           meta_use_flags b AND BO_USE_SW_READ_OFTEN drv \<noteq> 0 \<or>
           meta_use_flags b AND BO_USE_SW_WRITE_RARELY drv \<noteq> 0 \<or>
           meta_use_flags b AND BO_USE_SW_WRITE_OFTEN drv \<noteq> 0 \<or>
           \<not> has_local_mem (priv drv)"
  shows "create_request drv prelim b = GEM_CREATE (meta_total_size b)"
  using assms by (auto simp: create_request_def is_need_local_def Let_def)

text \<open>
  C9. When the use flags of the buffer hold one of the four software access bits, or
  the device has no local memory, \<open>i915_bo_create_from_metadata\<close> begins with the plain
  creation request, whose size is exactly \<open>total_size\<close>, and issues no other creation
  request: no extended request and no memory region list.
\<close>

theorem create_takes_system_path:
  assumes "meta_use_flags b AND BO_USE_SW_READ_RARELY drv \<noteq> 0 \<or>
           meta_use_flags b AND BO_USE_SW_READ_OFTEN drv \<noteq> 0 \<or>
           meta_use_flags b AND BO_USE_SW_WRITE_RARELY drv \<noteq> 0 \<or>
           meta_use_flags b AND BO_USE_SW_WRITE_OFTEN drv \<noteq> 0 \<or>
           \<not> has_local_mem (priv drv)"
  shows "hd (snd (i915_bo_create_from_metadata drv k prelim b)) =
           GEM_CREATE (meta_total_size b) \<and>
         filter is_create (snd (i915_bo_create_from_metadata drv k prelim b)) =
           [GEM_CREATE (meta_total_size b)]"
  using create_request_system [OF assms, of prelim]
  by (simp add: i915_bo_create_from_metadata_def Let_def)

theorem create_takes_system_path_witness:
  "(0x200 :: u64) AND BO_USE_SW_READ_OFTEN
       ((example_driver 12 5 True)
          \<lparr>priv := (example_device 12 5)\<lparr>has_local_mem := True, vram_size := 0x100000000\<rparr>\<rparr>)
     \<noteq> 0 \<and>
   snd (i915_bo_create_from_metadata
     ((example_driver 12 5 True)
        \<lparr>priv := (example_device 12 5)\<lparr>has_local_mem := True, vram_size := 0x100000000\<rparr>\<rparr>)
     example_kernel False ((example_bo DRM_FORMAT_R8 0x200)\<lparr>meta_total_size := 4096\<rparr>))
   = [GEM_CREATE 4096]"
  using create_takes_system_path
    [of "(example_bo DRM_FORMAT_R8 0x200)\<lparr>meta_total_size := 4096\<rparr>"
        "(example_driver 12 5 True)
           \<lparr>priv := (example_device 12 5)\<lparr>has_local_mem := True, vram_size := 0x100000000\<rparr>\<rparr>"
        example_kernel False]
  by (simp add: example_defs i915_bo_create_from_metadata_def Let_def create_request_def
        is_need_local_def)

section \<open>Plane count of a modifier: the assertion\<close>

text \<open>
  C10. \<open>i915_num_planes_from_modifier\<close>, called with one of the modifiers
  \<open>Y_TILED_CCS\<close>, \<open>Y_TILED_GEN12_RC_CCS\<close> or \<open>4_TILED_MTL_RC_CCS\<close>, asserts that the default
  plane count of the format is 1: when it is, the function returns 2; when it is not (a
  multi-plane format such as NV12), the assertion fails. With every other modifier it
  returns the default plane count of the format.
\<close>

theorem num_planes_from_modifier_ccs:
  "(modifier = I915_FORMAT_MOD_Y_TILED_CCS \<or>
    modifier = I915_FORMAT_MOD_Y_TILED_GEN12_RC_CCS \<or>
    modifier = I915_FORMAT_MOD_4_TILED_MTL_RC_CCS \<longrightarrow>
      (drv_num_planes_from_format drv format = 1 \<longrightarrow>
         i915_num_planes_from_modifier drv format modifier = Inr 2) \<and>
      (drv_num_planes_from_format drv format \<noteq> 1 \<longrightarrow>
         i915_num_planes_from_modifier drv format modifier = Inl ASSERT_FAILED)) \<and>
   (modifier \<noteq> I915_FORMAT_MOD_Y_TILED_CCS \<and>
    modifier \<noteq> I915_FORMAT_MOD_Y_TILED_GEN12_RC_CCS \<and>
    modifier \<noteq> I915_FORMAT_MOD_4_TILED_MTL_RC_CCS \<longrightarrow>
      i915_num_planes_from_modifier drv format modifier =
        Inr (drv_num_planes_from_format drv format))"
  by (simp add: i915_num_planes_from_modifier_def)

theorem num_planes_from_modifier_ccs_witness:
  "i915_num_planes_from_modifier (example_driver 12 0 True) DRM_FORMAT_XRGB8888
      I915_FORMAT_MOD_Y_TILED_GEN12_RC_CCS = Inr 2 \<and>
   i915_num_planes_from_modifier (example_driver 12 0 True) DRM_FORMAT_NV12
      I915_FORMAT_MOD_Y_TILED_GEN12_RC_CCS = Inl ASSERT_FAILED \<and>
   i915_num_planes_from_modifier (example_driver 12 0 True) DRM_FORMAT_NV12
      I915_FORMAT_MOD_Y_TILED = Inr 2"
  using num_planes_from_modifier_ccs [of I915_FORMAT_MOD_Y_TILED_GEN12_RC_CCS
          "example_driver 12 0 True" DRM_FORMAT_XRGB8888]
        num_planes_from_modifier_ccs [of I915_FORMAT_MOD_Y_TILED_GEN12_RC_CCS
          "example_driver 12 0 True" DRM_FORMAT_NV12]
        num_planes_from_modifier_ccs [of I915_FORMAT_MOD_Y_TILED
          "example_driver 12 0 True" DRM_FORMAT_NV12]
  by (simp add: example_defs format_defs modifier_defs)

end
